theory Spec2Isabelle
  imports Main "HOL-Library.Word" "HOL-Library.AList"
begin

unbundle bit_operations_syntax

section \<open>BlastMidi: the data model\<close>

text \<open>
  A shallow embedding of \<^verbatim>\<open>blastmidi.c\<close>, \<^verbatim>\<open>blastmidi_utility.h\<close> and the public header
  \<^verbatim>\<open>blastmidi.h\<close>. Fixed-width C integers are words; \<^verbatim>\<open>size_t\<close> quantities (the I/O
  cursor, byte counts) are natural numbers. The \<^verbatim>\<open>assert\<close> statements of the source are
  not modelled as aborts: the model follows the build in which \<^verbatim>\<open>assert\<close> expands to
  nothing.
\<close>

type_synonym u8 = "8 word"
type_synonym u16 = "16 word"
type_synonym u32 = "32 word"
type_synonym addr = nat

text \<open>\<^verbatim>\<open>enum blastmidi_errors\<close>.\<close>

datatype blastmidi_errors =
    BLASTMIDI_OK
  | BLASTMIDI_INVALIDPARAM
  | BLASTMIDI_OUTOFMEMORY
  | BLASTMIDI_ALREADYADDED
  | BLASTMIDI_NOTADDED
  | BLASTMIDI_NOTPARTOFTRACK
  | BLASTMIDI_NOCALLBACK
  | BLASTMIDI_INVALIDCHUNK
  | BLASTMIDI_INCOMPLETECHUNK
  | BLASTMIDI_UNEXPECTEDEND
  | BLASTMIDI_WRITINGFAILED
  | BLASTMIDI_INVALID

text \<open>\<^verbatim>\<open>enum blastmidi_meta_events\<close>, \<^verbatim>\<open>enum blastmidi_channel_events\<close> and
  \<^verbatim>\<open>enum blastmidi_event_types\<close>, as the byte values the switch statements compare.\<close>

abbreviation (input) BLASTMIDI_META_SEQUENCE_NUMBER :: u8 where "BLASTMIDI_META_SEQUENCE_NUMBER \<equiv> 0"
abbreviation (input) BLASTMIDI_META_TEXT :: u8 where "BLASTMIDI_META_TEXT \<equiv> 1"
abbreviation (input) BLASTMIDI_META_COPYRIGHT_NOTICE :: u8 where "BLASTMIDI_META_COPYRIGHT_NOTICE \<equiv> 2"
abbreviation (input) BLASTMIDI_META_SEQUENCE_OR_TRACK_NAME :: u8 where "BLASTMIDI_META_SEQUENCE_OR_TRACK_NAME \<equiv> 3"
abbreviation (input) BLASTMIDI_META_INSTRUMENT_NAME :: u8 where "BLASTMIDI_META_INSTRUMENT_NAME \<equiv> 4"
abbreviation (input) BLASTMIDI_META_LYRICS :: u8 where "BLASTMIDI_META_LYRICS \<equiv> 5"
abbreviation (input) BLASTMIDI_META_MARKER :: u8 where "BLASTMIDI_META_MARKER \<equiv> 6"
abbreviation (input) BLASTMIDI_META_CUE_POINT :: u8 where "BLASTMIDI_META_CUE_POINT \<equiv> 7"
abbreviation (input) BLASTMIDI_META_MIDI_CHANNEL_PREFIX :: u8 where "BLASTMIDI_META_MIDI_CHANNEL_PREFIX \<equiv> 32"
abbreviation (input) BLASTMIDI_META_END_OF_TRACK :: u8 where "BLASTMIDI_META_END_OF_TRACK \<equiv> 47"
abbreviation (input) BLASTMIDI_META_SET_TEMPO :: u8 where "BLASTMIDI_META_SET_TEMPO \<equiv> 81"
abbreviation (input) BLASTMIDI_META_SMPTE_OFFSET :: u8 where "BLASTMIDI_META_SMPTE_OFFSET \<equiv> 84"
abbreviation (input) BLASTMIDI_META_TIME_SIGNATURE :: u8 where "BLASTMIDI_META_TIME_SIGNATURE \<equiv> 88"
abbreviation (input) BLASTMIDI_META_KEY_SIGNATURE :: u8 where "BLASTMIDI_META_KEY_SIGNATURE \<equiv> 89"
abbreviation (input) BLASTMIDI_META_SEQUENCER_SPECIFIC :: u8 where "BLASTMIDI_META_SEQUENCER_SPECIFIC \<equiv> 127"

abbreviation (input) BLASTMIDI_CHANNEL_NOTE_OFF :: u8 where "BLASTMIDI_CHANNEL_NOTE_OFF \<equiv> 8"
abbreviation (input) BLASTMIDI_CHANNEL_NOTE_ON :: u8 where "BLASTMIDI_CHANNEL_NOTE_ON \<equiv> 9"
abbreviation (input) BLASTMIDI_CHANNEL_NOTE_AFTERTOUCH :: u8 where "BLASTMIDI_CHANNEL_NOTE_AFTERTOUCH \<equiv> 10"
abbreviation (input) BLASTMIDI_CHANNEL_CONTROLLER :: u8 where "BLASTMIDI_CHANNEL_CONTROLLER \<equiv> 11"
abbreviation (input) BLASTMIDI_CHANNEL_PROGRAM_CHANGE :: u8 where "BLASTMIDI_CHANNEL_PROGRAM_CHANGE \<equiv> 12"
abbreviation (input) BLASTMIDI_CHANNEL_CHANNEL_AFTERTOUCH :: u8 where "BLASTMIDI_CHANNEL_CHANNEL_AFTERTOUCH \<equiv> 13"
abbreviation (input) BLASTMIDI_CHANNEL_PITCH_BEND :: u8 where "BLASTMIDI_CHANNEL_PITCH_BEND \<equiv> 14"

abbreviation (input) BLASTMIDI_CHANNEL_EVENT :: u8 where "BLASTMIDI_CHANNEL_EVENT \<equiv> 1"
abbreviation (input) BLASTMIDI_META_EVENT :: u8 where "BLASTMIDI_META_EVENT \<equiv> 2"
abbreviation (input) BLASTMIDI_SYSEX_EVENT :: u8 where "BLASTMIDI_SYSEX_EVENT \<equiv> 3"

text \<open>\<^verbatim>\<open>enum blastmidi_callback_actions\<close>.\<close>

datatype blastmidi_callback_actions =
    BLASTMIDI_CALLBACK_READ
  | BLASTMIDI_CALLBACK_WRITE
  | BLASTMIDI_CALLBACK_SEEK

text \<open>
  The \<^verbatim>\<open>data\<close> pointer of an event: null, the address of the event's own
  \<^verbatim>\<open>small_pool\<close>, or the address of a block obtained from \<^verbatim>\<open>malloc_function\<close>.
\<close>

datatype data_ptr = Data_NULL | Data_small_pool | Data_block addr

text \<open>
  \<^verbatim>\<open>struct blastmidi_event\<close>. \<^verbatim>\<open>track\<close> is an \<^verbatim>\<open>int16_t\<close> and \<^verbatim>\<open>channel\<close> an
  \<^verbatim>\<open>int8_t\<close>: the words hold their two's complement bits, \<open>sint\<close> reads them, and
  \<open>-1\<close> is the all-ones word. \<^verbatim>\<open>previous\<close> and \<^verbatim>\<open>next\<close> are addresses of events in
  the store of the instance, \<open>None\<close> for the null pointer.
\<close>

record blastmidi_event =
  track :: u16
  time :: u32
  type :: u8
  subtype :: u8
  channel :: u8
  data :: data_ptr
  data_size :: u32
  end_of_sysex :: u8
  small_pool :: "u8 list"
  previous :: "addr option"
  "next" :: "addr option"

text \<open>
  The caller's byte stream behind \<^verbatim>\<open>data_callback\<close> and \<^verbatim>\<open>data_callback_data\<close>. The
  callback is supplied by the caller and is no code of the library; here it is an
  in-memory stream: the bytes of the file and the position of the next read.
\<close>

datatype stream = Stream (contents: "u8 list") (position: nat)

text \<open>
  The callback contract of \<^verbatim>\<open>blastmidi.h\<close> on that stream: a read of \<open>n\<close> bytes succeeds
  when \<open>n\<close> bytes are left and then advances the position, a seek to an absolute offset
  succeeds when the offset lies within the file, and a failed call leaves the stream
  where it was. The stream is read-only.
\<close>

definition stream_callback ::
  "blastmidi_callback_actions \<Rightarrow> nat \<Rightarrow> stream \<Rightarrow> bool \<times> u8 list \<times> stream" where
  "stream_callback action n st =
     (case action of
        BLASTMIDI_CALLBACK_READ \<Rightarrow>
          if position st + n \<le> length (contents st)
          then (True, take n (drop (position st) (contents st)),
                Stream (contents st) (position st + n))
          else (False, [], st)
      | BLASTMIDI_CALLBACK_WRITE \<Rightarrow> (False, [], st)
      | BLASTMIDI_CALLBACK_SEEK \<Rightarrow>
          if n \<le> length (contents st)
          then (True, [], Stream (contents st) n)
          else (False, [], st))"

text \<open>
  \<^verbatim>\<open>struct blastmidi\<close>, together with what its pointers refer to.
  \<^item> \<open>data_callback\<close> is \<open>None\<close> for a null callback, otherwise the stream behind it.
  \<^item> \<open>malloc_function\<close> and \<open>free_function\<close> act on the heap fields: \<open>events\<close> holds the
    live event records by address, \<open>blocks\<close> the live payload buffers, \<open>arrays\<close> the live
    arrays of event pointers, \<open>next_addr\<close> is the next address handed out, and
    \<open>malloc_plan\<close> lists the outcomes of the coming allocations (\<open>False\<close>: the call
    returns null); after the end of the plan every allocation succeeds.
  \<^item> \<open>tracks\<close> and \<open>track_ends\<close> are \<open>None\<close> for a null pointer, otherwise the address
    of an array in \<open>arrays\<close>.
  \<^item> \<open>host_little_endian\<close> is the byte order of the machine the library runs on.
  \<^item> \<open>undefined_behaviour\<close> is no field of the structure. It records that the execution
    has read an event that was freed before, which C leaves undefined; no function
    clears it, and what the other fields hold after it is set says nothing about the
    program.
\<close>

record blastmidi =
  data_callback :: "stream option"
  endian_flag :: u8
  malloc_plan :: "bool list"
  next_addr :: addr
  events :: "(addr \<times> blastmidi_event) list"
  blocks :: "(addr \<times> u8 list) list"
  arrays :: "(addr \<times> addr option list) list"
  host_little_endian :: bool
  undefined_behaviour :: bool
  track_count :: u16
  file_type :: u8
  time_type :: u8
  ticks_per_beat :: u16
  SMPTE_frames :: u8
  ticks_per_frame :: u8
  valid :: u8
  tracks :: "addr option"
  track_ends :: "addr option"
  cursor :: nat
  running_status :: u8
  sysex_continuation :: u8

section \<open>\<^verbatim>\<open>blastmidi_utility.h\<close>\<close>

text \<open>
  Objects reinterpreted as bytes (\<^verbatim>\<open>(uint8_t*) &x\<close>) and back, in the byte order of the
  host.
\<close>

definition native_bytes_16 :: "bool \<Rightarrow> u16 \<Rightarrow> u8 list" where
  "native_bytes_16 le x =
     (if le then [ucast x, ucast (drop_bit 8 x)] else [ucast (drop_bit 8 x), ucast x])"

definition native_bytes_32 :: "bool \<Rightarrow> u32 \<Rightarrow> u8 list" where
  "native_bytes_32 le x =
     (if le then [ucast x, ucast (drop_bit 8 x), ucast (drop_bit 16 x), ucast (drop_bit 24 x)]
      else [ucast (drop_bit 24 x), ucast (drop_bit 16 x), ucast (drop_bit 8 x), ucast x])"

fun native_word_16 :: "bool \<Rightarrow> u8 list \<Rightarrow> u16" where
  "native_word_16 le [b0, b1] =
     (if le then push_bit 8 (ucast b1) OR ucast b0 else push_bit 8 (ucast b0) OR ucast b1)"
| "native_word_16 le bs = 0"

fun native_word_32 :: "bool \<Rightarrow> u8 list \<Rightarrow> u32" where
  "native_word_32 le [b0, b1, b2, b3] =
     (if le
      then push_bit 24 (ucast b3) OR push_bit 16 (ucast b2) OR push_bit 8 (ucast b1) OR ucast b0
      else push_bit 24 (ucast b0) OR push_bit 16 (ucast b1) OR push_bit 8 (ucast b2) OR ucast b3)"
| "native_word_32 le bs = 0"

definition is_little_endian :: "bool \<Rightarrow> bool" where
  "is_little_endian le = (hd (native_bytes_16 le 1) = 1)"

definition extract_bits_32 :: "u32 \<Rightarrow> nat \<Rightarrow> nat \<Rightarrow> u32" where
  "extract_bits_32 v a b = drop_bit (31 - (b - a)) (push_bit (a - 1) v)"

definition swap_32 :: "u32 \<Rightarrow> u32" where
  "swap_32 x0 =
     (let x = push_bit 16 (x0 AND 0x0000FFFF) OR drop_bit 16 (x0 AND 0xFFFF0000)
      in push_bit 8 (x AND 0x00FF00FF) OR drop_bit 8 (x AND 0xFF00FF00))"

definition extract_bits_16 :: "u16 \<Rightarrow> nat \<Rightarrow> nat \<Rightarrow> u16" where
  "extract_bits_16 v a b = drop_bit (15 - (b - a)) (push_bit (a - 1) v)"

definition swap_16 :: "u16 \<Rightarrow> u16" where
  "swap_16 x = push_bit 8 (x AND 0xff) OR drop_bit 8 (x AND 0xff00)"

definition extract_bits_8 :: "u8 \<Rightarrow> nat \<Rightarrow> nat \<Rightarrow> u8" where
  "extract_bits_8 v a b = drop_bit (7 - (b - a)) (push_bit (a - 1) v)"

definition convert_endian_32 :: "u32 \<Rightarrow> u8 \<Rightarrow> u32" where
  "convert_endian_32 x endian_flag' = (if endian_flag' = 1 then swap_32 x else x)"

definition convert_endian_16 :: "u16 \<Rightarrow> u8 \<Rightarrow> u16" where
  "convert_endian_16 x endian_flag' = (if endian_flag' = 1 then swap_16 x else x)"

section \<open>\<^verbatim>\<open>blastmidi.c\<close>: allocation\<close>

text \<open>Object sizes passed to the allocator (an LP64 target); no result depends on them.\<close>

definition sizeof_blastmidi_event :: nat where
  "sizeof_blastmidi_event = 48"

definition sizeof_pointer :: nat where
  "sizeof_pointer = 8"

text \<open>
  A call of \<^verbatim>\<open>instance->malloc_function\<close>: the next outcome of the plan decides whether it
  returns null or a fresh address. The requested size plays no part in the outcome, so
  a request for 0 bytes also returns a block when the plan lets it succeed.
\<close>

definition malloc_function :: "blastmidi \<Rightarrow> nat \<Rightarrow> addr option \<times> blastmidi" where
  "malloc_function s n =
     (case malloc_plan s of
        [] \<Rightarrow> (Some (next_addr s), s\<lparr>next_addr := Suc (next_addr s)\<rparr>)
      | ok # plan \<Rightarrow>
          if ok then (Some (next_addr s), s\<lparr>malloc_plan := plan, next_addr := Suc (next_addr s)\<rparr>)
          else (None, s\<lparr>malloc_plan := plan\<rparr>))"

text \<open>\<^verbatim>\<open>instance->free_function\<close> on the address of an event record, of a payload block
  and of an array of event pointers. Freeing an address that is not live leaves the heap
  as it is.\<close>

definition free_function_event :: "blastmidi \<Rightarrow> addr \<Rightarrow> blastmidi" where
  "free_function_event s a = s\<lparr>events := AList.delete a (events s)\<rparr>"

definition free_function_block :: "blastmidi \<Rightarrow> addr \<Rightarrow> blastmidi" where
  "free_function_block s a = s\<lparr>blocks := AList.delete a (blocks s)\<rparr>"

definition free_function_array :: "blastmidi \<Rightarrow> addr \<Rightarrow> blastmidi" where
  "free_function_array s a = s\<lparr>arrays := AList.delete a (arrays s)\<rparr>"

text \<open>\<^verbatim>\<open>memcpy (dst, src, n)\<close> on byte lists: the first \<open>n\<close> bytes of \<open>dst\<close> are replaced.\<close>

definition memcpy :: "u8 list \<Rightarrow> u8 list \<Rightarrow> nat \<Rightarrow> u8 list" where
  "memcpy dst src n = take n src @ drop n dst"

text \<open>Writing through an event pointer: the record at a live address is replaced.\<close>

definition set_event :: "blastmidi \<Rightarrow> addr \<Rightarrow> blastmidi_event \<Rightarrow> blastmidi" where
  "set_event s a e = s\<lparr>events := AList.update a e (events s)\<rparr>"

text \<open>
  Writing \<open>buf\<close> through the \<^verbatim>\<open>data\<close> pointer of the event at \<open>a\<close> (the destination of
  \<^verbatim>\<open>memcpy\<close> in \<^verbatim>\<open>allocate_event\<close> and of the reads into \<^verbatim>\<open>event_ptr[0]->data\<close>).
\<close>

definition write_data :: "blastmidi \<Rightarrow> addr \<Rightarrow> u8 list \<Rightarrow> nat \<Rightarrow> blastmidi" where
  "write_data s a buf n =
     (case map_of (events s) a of
        None \<Rightarrow> s
      | Some e \<Rightarrow>
          (case data e of
             Data_NULL \<Rightarrow> s
           | Data_small_pool \<Rightarrow> set_event s a (e\<lparr>small_pool := memcpy (small_pool e) buf n\<rparr>)
           | Data_block b \<Rightarrow>
               (case map_of (blocks s) b of
                  None \<Rightarrow> s
                | Some old \<Rightarrow> s\<lparr>blocks := AList.update b (memcpy old buf n) (blocks s)\<rparr>)))"

text \<open>The payload of an event, read through its \<^verbatim>\<open>data\<close> pointer: \<^verbatim>\<open>data_size\<close> bytes.\<close>

definition payload :: "blastmidi \<Rightarrow> addr \<Rightarrow> u8 list" where
  "payload s a =
     (case map_of (events s) a of
        None \<Rightarrow> []
      | Some e \<Rightarrow>
          (case data e of
             Data_NULL \<Rightarrow> []
           | Data_small_pool \<Rightarrow> take (unat (data_size e)) (small_pool e)
           | Data_block b \<Rightarrow>
               (case map_of (blocks s) b of
                  None \<Rightarrow> []
                | Some bs \<Rightarrow> take (unat (data_size e)) bs)))"

text \<open>
  \<^verbatim>\<open>allocate_event\<close>. \<open>data'\<close> is \<open>None\<close> for a null \<^verbatim>\<open>data\<close> argument. A fresh block from
  \<^verbatim>\<open>malloc_function\<close> is uninitialised in C; the model fills it with zero bytes.
  The result is the error code, the value stored in \<^verbatim>\<open>*event\<close> and the new state.
\<close>

definition allocate_event ::
  "blastmidi \<Rightarrow> u8 \<Rightarrow> u8 \<Rightarrow> u8 list option \<Rightarrow> u32 \<Rightarrow> blastmidi_errors \<times> addr option \<times> blastmidi" where
  "allocate_event s type' subtype' data' data_size' =
     (case malloc_function s sizeof_blastmidi_event of
        (None, s1) \<Rightarrow> (BLASTMIDI_OUTOFMEMORY, None, s1)
      | (Some output, s1) \<Rightarrow>
          let ev = \<lparr>track = - 1, time = 0, type = type', subtype = subtype', channel = - 1,
                    data = Data_NULL, data_size = data_size', end_of_sysex = 0,
                    small_pool = [0, 0], previous = None, next = None\<rparr>;
              s2 = set_event s1 output ev
          in if 0 < data_size' \<and> unat data_size' \<le> 2
             then
               let s3 = set_event s2 output (ev\<lparr>data := Data_small_pool\<rparr>);
                   s4 = (case data' of None \<Rightarrow> s3
                         | Some src \<Rightarrow> write_data s3 output src (unat data_size'))
               in (BLASTMIDI_OK, Some output, s4)
             else
               (case malloc_function s2 (unat data_size') of
                  (None, s3) \<Rightarrow> (BLASTMIDI_OUTOFMEMORY, None, free_function_event s3 output)
                | (Some data_block, s3) \<Rightarrow>
                    let s4 = s3\<lparr>blocks := AList.update data_block
                                   (replicate (unat data_size') 0) (blocks s3)\<rparr>;
                        s5 = set_event s4 output (ev\<lparr>data := Data_block data_block\<rparr>);
                        s6 = (case data' of None \<Rightarrow> s5
                              | Some src \<Rightarrow> write_data s5 output src (unat data_size'))
                    in (BLASTMIDI_OK, Some output, s6)))"

text \<open>
  \<^verbatim>\<open>blastmidi_event_free\<close>. Reading \<^verbatim>\<open>event->data\<close> of an event that is not live is
  undefined in C; the model records that.
\<close>

definition blastmidi_event_free :: "blastmidi \<Rightarrow> addr \<Rightarrow> blastmidi" where
  "blastmidi_event_free s event =
     (case map_of (events s) event of
        None \<Rightarrow> s\<lparr>undefined_behaviour := True\<rparr>
      | Some e \<Rightarrow>
          let s1 = (if data e \<noteq> Data_NULL \<and> 2 < unat (data_size e)
                    then (case data e of Data_block b \<Rightarrow> free_function_block s b | _ \<Rightarrow> s)
                    else s)
          in free_function_event s1 event)"

text \<open>Reading and writing the record behind an event pointer.\<close>

definition update_event ::
  "blastmidi \<Rightarrow> addr \<Rightarrow> (blastmidi_event \<Rightarrow> blastmidi_event) \<Rightarrow> blastmidi" where
  "update_event s a f = (case map_of (events s) a of None \<Rightarrow> s | Some e \<Rightarrow> set_event s a (f e))"

section \<open>\<^verbatim>\<open>blastmidi.c\<close>: event factories\<close>

text \<open>
  Each factory returns the error code, the value of \<^verbatim>\<open>*event\<close> after the call (the callers
  initialise it to null, and a failing factory does not write it) and the new state.
\<close>

definition blastmidi_event_create_channel_event ::
  "blastmidi \<Rightarrow> u8 \<Rightarrow> u8 \<Rightarrow> u8 \<Rightarrow> u8 \<Rightarrow> blastmidi_errors \<times> addr option \<times> blastmidi" where
  "blastmidi_event_create_channel_event s channel' subtype' param_1 param_2 =
     (let prepared =
        (if subtype' = BLASTMIDI_CHANNEL_NOTE_OFF \<or> subtype' = BLASTMIDI_CHANNEL_NOTE_ON
            \<or> subtype' = BLASTMIDI_CHANNEL_NOTE_AFTERTOUCH \<or> subtype' = BLASTMIDI_CHANNEL_CONTROLLER
         then Some ([param_1, param_2], 2 :: u32)
         else if subtype' = BLASTMIDI_CHANNEL_PITCH_BEND
         then
           let p1 = extract_bits_8 param_1 2 8;
               p2 = extract_bits_8 param_2 2 8;
               t1 = (ucast p1 :: u16);
               t2 = push_bit 8 t1;
               t3 = t2 OR push_bit 1 (ucast p2 :: u16);
               temp16 = drop_bit 1 t3
           in Some (native_bytes_16 (host_little_endian s) temp16, 2)
         else if subtype' = BLASTMIDI_CHANNEL_PROGRAM_CHANGE
            \<or> subtype' = BLASTMIDI_CHANNEL_CHANNEL_AFTERTOUCH
         then Some ([param_1], 1)
         else None)
      in case prepared of
           None \<Rightarrow> (BLASTMIDI_INVALIDPARAM, None, s)
         | Some (data', data_size') \<Rightarrow>
             (case allocate_event s BLASTMIDI_CHANNEL_EVENT subtype' (Some data') data_size' of
                (result, output, s1) \<Rightarrow>
                  if result \<noteq> BLASTMIDI_OK then (result, None, s1)
                  else (case output of
                          None \<Rightarrow> (BLASTMIDI_OK, None, s1)
                        | Some out \<Rightarrow>
                            (BLASTMIDI_OK, Some out,
                             update_event s1 out (\<lambda>e. e\<lparr>channel := channel'\<rparr>)))))"

definition blastmidi_event_create_meta_sequence_number_event ::
  "blastmidi \<Rightarrow> u16 \<Rightarrow> blastmidi_errors \<times> addr option \<times> blastmidi" where
  "blastmidi_event_create_meta_sequence_number_event s sequence_number =
     (case allocate_event s BLASTMIDI_META_EVENT BLASTMIDI_META_SEQUENCE_NUMBER
             (Some (native_bytes_16 (host_little_endian s) sequence_number)) 2 of
        (result, output, s1) \<Rightarrow>
          if result \<noteq> BLASTMIDI_OK then (result, None, s1) else (BLASTMIDI_OK, output, s1))"

definition blastmidi_event_create_meta_tempo_event ::
  "blastmidi \<Rightarrow> u32 \<Rightarrow> blastmidi_errors \<times> addr option \<times> blastmidi" where
  "blastmidi_event_create_meta_tempo_event s tempo =
     (case allocate_event s BLASTMIDI_META_EVENT BLASTMIDI_META_SET_TEMPO
             (Some (native_bytes_32 (host_little_endian s) tempo)) 4 of
        (result, output, s1) \<Rightarrow>
          if result \<noteq> BLASTMIDI_OK then (result, None, s1) else (BLASTMIDI_OK, output, s1))"

definition blastmidi_event_create_meta_data_event ::
  "blastmidi \<Rightarrow> u8 \<Rightarrow> u8 list option \<Rightarrow> u32 \<Rightarrow> blastmidi_errors \<times> addr option \<times> blastmidi" where
  "blastmidi_event_create_meta_data_event s subtype' data' data_size' =
     (if subtype' = BLASTMIDI_META_TEXT \<or> subtype' = BLASTMIDI_META_COPYRIGHT_NOTICE
         \<or> subtype' = BLASTMIDI_META_SEQUENCE_OR_TRACK_NAME
         \<or> subtype' = BLASTMIDI_META_INSTRUMENT_NAME \<or> subtype' = BLASTMIDI_META_LYRICS
         \<or> subtype' = BLASTMIDI_META_MARKER \<or> subtype' = BLASTMIDI_META_CUE_POINT
         \<or> subtype' = BLASTMIDI_META_SEQUENCER_SPECIFIC
      then
        (case allocate_event s BLASTMIDI_META_EVENT subtype' data' data_size' of
           (result, output, s1) \<Rightarrow>
             if result \<noteq> BLASTMIDI_OK then (result, None, s1) else (BLASTMIDI_OK, output, s1))
      else (BLASTMIDI_INVALIDPARAM, None, s))"

definition blastmidi_event_create_meta_midi_channel_prefix_event ::
  "blastmidi \<Rightarrow> u8 \<Rightarrow> blastmidi_errors \<times> addr option \<times> blastmidi" where
  "blastmidi_event_create_meta_midi_channel_prefix_event s channel' =
     (case allocate_event s BLASTMIDI_META_EVENT BLASTMIDI_META_MIDI_CHANNEL_PREFIX
             (Some [channel']) 1 of
        (result, output, s1) \<Rightarrow>
          if result \<noteq> BLASTMIDI_OK then (result, None, s1) else (BLASTMIDI_OK, output, s1))"

definition blastmidi_event_create_meta_time_signature_event ::
  "blastmidi \<Rightarrow> u8 \<Rightarrow> u8 \<Rightarrow> u8 \<Rightarrow> u8 \<Rightarrow> blastmidi_errors \<times> addr option \<times> blastmidi" where
  "blastmidi_event_create_meta_time_signature_event s numerator denominator metronome
       thirtyseconds_per_24_signals =
     (case allocate_event s BLASTMIDI_META_EVENT BLASTMIDI_META_TIME_SIGNATURE
             (Some [numerator, denominator, metronome, thirtyseconds_per_24_signals]) 4 of
        (result, output, s1) \<Rightarrow>
          if result \<noteq> BLASTMIDI_OK then (result, None, s1) else (BLASTMIDI_OK, output, s1))"

definition blastmidi_event_create_meta_key_signature_event ::
  "blastmidi \<Rightarrow> u8 \<Rightarrow> u8 \<Rightarrow> blastmidi_errors \<times> addr option \<times> blastmidi" where
  "blastmidi_event_create_meta_key_signature_event s key scale =
     (case allocate_event s BLASTMIDI_META_EVENT BLASTMIDI_META_KEY_SIGNATURE
             (Some [key, scale]) 2 of
        (result, output, s1) \<Rightarrow>
          if result \<noteq> BLASTMIDI_OK then (result, None, s1) else (BLASTMIDI_OK, output, s1))"

definition blastmidi_event_create_sysex_event ::
  "blastmidi \<Rightarrow> u8 list option \<Rightarrow> u32 \<Rightarrow> u8 \<Rightarrow> blastmidi_errors \<times> addr option \<times> blastmidi" where
  "blastmidi_event_create_sysex_event s data' data_size' end_of_sysex' =
     (case allocate_event s BLASTMIDI_SYSEX_EVENT 0 data' data_size' of
        (result, output, s1) \<Rightarrow>
          if result \<noteq> BLASTMIDI_OK then (result, None, s1)
          else (case output of
                  None \<Rightarrow> (BLASTMIDI_OK, None, s1)
                | Some out \<Rightarrow>
                    (BLASTMIDI_OK, Some out,
                     update_event s1 out (\<lambda>e. e\<lparr>end_of_sysex := end_of_sysex'\<rparr>))))"

section \<open>\<^verbatim>\<open>blastmidi.c\<close>: stream input\<close>

text \<open>
  The I/O functions return the error code, the bytes or the number stored through the
  buffer pointer, and the new state. A call through a null \<^verbatim>\<open>data_callback\<close> is undefined
  in C (\<^verbatim>\<open>blastmidi_read\<close> refuses to start without a callback); the model fails the
  read there. After a failed read the buffer is reported empty, a number as 0: every
  caller returns at once without looking at it.
\<close>

definition read_bytes :: "blastmidi \<Rightarrow> nat \<Rightarrow> blastmidi_errors \<times> u8 list \<times> blastmidi" where
  "read_bytes s size' =
     (case data_callback s of
        None \<Rightarrow> (BLASTMIDI_UNEXPECTEDEND, [], s)
      | Some st \<Rightarrow>
          (case stream_callback BLASTMIDI_CALLBACK_READ size' st of
             (ok, buffer, st') \<Rightarrow>
               if ok
               then (BLASTMIDI_OK, buffer, s\<lparr>data_callback := Some st', cursor := cursor s + size'\<rparr>)
               else (BLASTMIDI_UNEXPECTEDEND, [], s\<lparr>data_callback := Some st'\<rparr>)))"

definition skip_ahead :: "blastmidi \<Rightarrow> nat \<Rightarrow> blastmidi_errors \<times> blastmidi" where
  "skip_ahead s size' =
     (case data_callback s of
        None \<Rightarrow> (BLASTMIDI_UNEXPECTEDEND, s)
      | Some st \<Rightarrow>
          (case stream_callback BLASTMIDI_CALLBACK_SEEK (cursor s + size') st of
             (ok, buffer, st') \<Rightarrow>
               if ok
               then (BLASTMIDI_OK, s\<lparr>data_callback := Some st', cursor := cursor s + size'\<rparr>)
               else (BLASTMIDI_UNEXPECTEDEND, s\<lparr>data_callback := Some st'\<rparr>)))"

text \<open>\<^verbatim>\<open>skip_backwards\<close> asserts \<^verbatim>\<open>cursor >= size\<close>; its only call steps back over a byte
  that has just been read.\<close>

definition skip_backwards :: "blastmidi \<Rightarrow> nat \<Rightarrow> blastmidi_errors \<times> blastmidi" where
  "skip_backwards s size' =
     (case data_callback s of
        None \<Rightarrow> (BLASTMIDI_UNEXPECTEDEND, s)
      | Some st \<Rightarrow>
          (case stream_callback BLASTMIDI_CALLBACK_SEEK (cursor s - size') st of
             (ok, buffer, st') \<Rightarrow>
               if ok
               then (BLASTMIDI_OK, s\<lparr>data_callback := Some st', cursor := cursor s - size'\<rparr>)
               else (BLASTMIDI_UNEXPECTEDEND, s\<lparr>data_callback := Some st'\<rparr>)))"

definition read_byte :: "blastmidi \<Rightarrow> blastmidi_errors \<times> u8 \<times> blastmidi" where
  "read_byte s =
     (case read_bytes s 1 of
        (result, buffer, s1) \<Rightarrow> (result, (case buffer of [] \<Rightarrow> 0 | b # bs \<Rightarrow> b), s1))"

definition read_16_bit :: "blastmidi \<Rightarrow> blastmidi_errors \<times> u16 \<times> blastmidi" where
  "read_16_bit s =
     (case read_bytes s 2 of
        (result, buffer, s1) \<Rightarrow>
          if result = BLASTMIDI_OK
          then (BLASTMIDI_OK,
                convert_endian_16 (native_word_16 (host_little_endian s1) buffer) (endian_flag s1),
                s1)
          else (BLASTMIDI_UNEXPECTEDEND, 0, s1))"

definition read_32_bit :: "blastmidi \<Rightarrow> blastmidi_errors \<times> u32 \<times> blastmidi" where
  "read_32_bit s =
     (case read_bytes s 4 of
        (result, buffer, s1) \<Rightarrow>
          if result = BLASTMIDI_OK
          then (BLASTMIDI_OK,
                convert_endian_32 (native_word_32 (host_little_endian s1) buffer) (endian_flag s1),
                s1)
          else (BLASTMIDI_UNEXPECTEDEND, 0, s1))"

text \<open>\<^verbatim>\<open>read_24_bit\<close> reads 3 bytes over the first 3 bytes of \<^verbatim>\<open>*buffer\<close>; the fourth byte
  keeps what the caller had put there (\<open>buffer0\<close>).\<close>

definition read_24_bit :: "blastmidi \<Rightarrow> u32 \<Rightarrow> blastmidi_errors \<times> u32 \<times> blastmidi" where
  "read_24_bit s buffer0 =
     (case read_bytes s 3 of
        (result, buffer, s1) \<Rightarrow>
          if result = BLASTMIDI_OK
          then
            let mem = memcpy (native_bytes_32 (host_little_endian s1) buffer0) buffer 3;
                b1 = convert_endian_32 (native_word_32 (host_little_endian s1) mem) (endian_flag s1)
            in (BLASTMIDI_OK, extract_bits_32 b1 1 24, s1)
          else (BLASTMIDI_UNEXPECTEDEND, buffer0, s1))"

text \<open>The \<^verbatim>\<open>for\<close> loop of \<^verbatim>\<open>read_variable_number\<close>, from the iteration with counter \<open>i\<close>
  and accumulator \<open>buffer\<close> on.\<close>

function read_variable_number_loop ::
  "blastmidi \<Rightarrow> u32 \<Rightarrow> nat \<Rightarrow> blastmidi_errors \<times> u32 \<times> blastmidi" where
  "read_variable_number_loop s buffer i =
     (if i < 4
      then
        (case read_byte s of
           (result, current, s1) \<Rightarrow>
             if result \<noteq> BLASTMIDI_OK then (result, buffer, s1)
             else
               let keep_going = extract_bits_8 current 1 1
               in if keep_going = 1 \<and> i = 3 then (BLASTMIDI_INVALIDCHUNK, buffer, s1)
                  else
                    let buffer' = push_bit 7 buffer OR ucast (current AND 0x7f)
                    in if keep_going = 0 then (BLASTMIDI_OK, buffer', s1)
                       else read_variable_number_loop s1 buffer' (Suc i))
      else (BLASTMIDI_OK, buffer, s))"
  by pat_completeness auto
termination
  by (relation "measure (\<lambda>(s, buffer, i). 4 - i)") auto

declare read_variable_number_loop.simps [simp del]

definition read_variable_number :: "blastmidi \<Rightarrow> blastmidi_errors \<times> u32 \<times> blastmidi" where
  "read_variable_number s = read_variable_number_loop s 0 0"

section \<open>\<^verbatim>\<open>blastmidi.c\<close>: the track lists\<close>

text \<open>
  Reading and writing slot \<open>i\<close> of the array that \<open>arr\<close> (the value of \<^verbatim>\<open>tracks\<close> or of
  \<^verbatim>\<open>track_ends\<close>) points to. The source guards every access with
  \<^verbatim>\<open>track_id < track_count\<close>, and the arrays have \<^verbatim>\<open>track_count\<close> slots; an access through
  a null pointer, to an array that is not live or past the end of the array is undefined
  in C, and reads null and writes nothing here.
\<close>

definition array_get :: "blastmidi \<Rightarrow> addr option \<Rightarrow> nat \<Rightarrow> addr option" where
  "array_get s arr i =
     (case arr of
        None \<Rightarrow> None
      | Some a \<Rightarrow>
          (case map_of (arrays s) a of
             None \<Rightarrow> None
           | Some xs \<Rightarrow> if i < length xs then xs ! i else None))"

definition array_set :: "blastmidi \<Rightarrow> addr option \<Rightarrow> nat \<Rightarrow> addr option \<Rightarrow> blastmidi" where
  "array_set s arr i v =
     (case arr of
        None \<Rightarrow> s
      | Some a \<Rightarrow>
          (case map_of (arrays s) a of
             None \<Rightarrow> s
           | Some xs \<Rightarrow> s\<lparr>arrays := AList.update a (xs[i := v]) (arrays s)\<rparr>))"

text \<open>Reading \<^verbatim>\<open>p->next\<close> and \<^verbatim>\<open>p->previous\<close>; null where no live event is at \<open>p\<close>.\<close>

definition next_of :: "blastmidi \<Rightarrow> addr \<Rightarrow> addr option" where
  "next_of s p = (case map_of (events s) p of None \<Rightarrow> None | Some e \<Rightarrow> next e)"

definition previous_of :: "blastmidi \<Rightarrow> addr \<Rightarrow> addr option" where
  "previous_of s p = (case map_of (events s) p of None \<Rightarrow> None | Some e \<Rightarrow> previous e)"

text \<open>
  \<^verbatim>\<open>blastmidi_add_event\<close>. The instance and the event are pointers that the function
  compares with null: \<open>None\<close> is the null pointer. The result is the error code and the
  instance after the call. An event pointer that refers to no live event cannot be read
  in C; the model answers it like a null event.
\<close>

definition blastmidi_add_event ::
  "blastmidi option \<Rightarrow> u16 \<Rightarrow> addr option \<Rightarrow> u32 \<Rightarrow> addr option
     \<Rightarrow> blastmidi_errors \<times> blastmidi option" where
  "blastmidi_add_event instance track_id event delta_time add_after =
     (case instance of
        None \<Rightarrow> (BLASTMIDI_INVALIDPARAM, None)
      | Some s \<Rightarrow>
     (case event of
        None \<Rightarrow> (BLASTMIDI_INVALIDPARAM, Some s)
      | Some ev \<Rightarrow>
     (case map_of (events s) ev of
        None \<Rightarrow> (BLASTMIDI_INVALIDPARAM, Some s)
      | Some e \<Rightarrow>
          if sint (track e) \<noteq> - 1 then (BLASTMIDI_ALREADYADDED, Some s)
          else if unat (track_count s) \<le> unat track_id then (BLASTMIDI_INVALIDPARAM, Some s)
          else
            let s1 = update_event s ev (\<lambda>e. e\<lparr>track := track_id, time := delta_time\<rparr>)
            in (case add_after of
                  Some after \<Rightarrow>
                    let old_next = next_of s1 after;
                        s2 = update_event s1 after (\<lambda>e. e\<lparr>next := Some ev\<rparr>);
                        s3 = update_event s2 ev (\<lambda>e. e\<lparr>previous := Some after\<rparr>);
                        s4 = update_event s3 ev (\<lambda>e. e\<lparr>next := old_next\<rparr>);
                        s5 = (if array_get s4 (track_ends s4) (unat track_id) = Some after
                              then array_set s4 (track_ends s4) (unat track_id) (Some ev)
                              else s4)
                    in (BLASTMIDI_OK, Some s5)
                | None \<Rightarrow>
                    let old_beginning = array_get s1 (tracks s1) (unat track_id);
                        s2 = update_event s1 ev (\<lambda>e. e\<lparr>previous := None\<rparr>);
                        s3 = update_event s2 ev (\<lambda>e. e\<lparr>next := old_beginning\<rparr>);
                        s4 = array_set s3 (tracks s3) (unat track_id) (Some ev);
                        s5 = (if array_get s4 (track_ends s4) (unat track_id) = None
                              then array_set s4 (track_ends s4) (unat track_id) (Some ev)
                              else s4)
                    in (BLASTMIDI_OK, Some s5)))))"

definition blastmidi_add_event_to_beginning_of_track ::
  "blastmidi option \<Rightarrow> u16 \<Rightarrow> addr option \<Rightarrow> u32 \<Rightarrow> blastmidi_errors \<times> blastmidi option" where
  "blastmidi_add_event_to_beginning_of_track instance track_id event delta_time =
     (case instance of
        None \<Rightarrow> (BLASTMIDI_INVALIDPARAM, None)
      | Some s \<Rightarrow>
     (case event of
        None \<Rightarrow> (BLASTMIDI_INVALIDPARAM, Some s)
      | Some ev \<Rightarrow>
     (case map_of (events s) ev of
        None \<Rightarrow> (BLASTMIDI_INVALIDPARAM, Some s)
      | Some e \<Rightarrow>
          if sint (track e) \<noteq> - 1 then (BLASTMIDI_ALREADYADDED, Some s)
          else if unat (track_count s) \<le> unat track_id then (BLASTMIDI_INVALIDPARAM, Some s)
          else blastmidi_add_event instance track_id event delta_time None)))"

definition blastmidi_add_event_to_end_of_track ::
  "blastmidi option \<Rightarrow> u16 \<Rightarrow> addr option \<Rightarrow> u32 \<Rightarrow> blastmidi_errors \<times> blastmidi option" where
  "blastmidi_add_event_to_end_of_track instance track_id event delta_time =
     (case instance of
        None \<Rightarrow> (BLASTMIDI_INVALIDPARAM, None)
      | Some s \<Rightarrow>
     (case event of
        None \<Rightarrow> (BLASTMIDI_INVALIDPARAM, Some s)
      | Some ev \<Rightarrow>
     (case map_of (events s) ev of
        None \<Rightarrow> (BLASTMIDI_INVALIDPARAM, Some s)
      | Some e \<Rightarrow>
          if sint (track e) \<noteq> - 1 then (BLASTMIDI_ALREADYADDED, Some s)
          else if unat (track_count s) \<le> unat track_id then (BLASTMIDI_INVALIDPARAM, Some s)
          else blastmidi_add_event instance track_id event delta_time
                 (array_get s (track_ends s) (unat track_id)))))"

text \<open>
  The four navigation functions. Their \<^verbatim>\<open>blastmidi_event**\<close> argument is \<open>None\<close> when the
  pointer itself is null, and \<open>Some p\<close> when it points to a variable holding \<open>p\<close>; the
  second component of the result is that variable after the call.
\<close>

definition blastmidi_get_first_event_on_track ::
  "blastmidi option \<Rightarrow> u16 \<Rightarrow> addr option option \<Rightarrow> blastmidi_errors \<times> addr option option" where
  "blastmidi_get_first_event_on_track instance track_id event =
     (case instance of
        None \<Rightarrow> (BLASTMIDI_INVALIDPARAM, event)
      | Some s \<Rightarrow>
          if event = None then (BLASTMIDI_INVALIDPARAM, event)
          else if unat (track_count s) \<le> unat track_id then (BLASTMIDI_INVALIDPARAM, event)
          else (BLASTMIDI_OK, Some (array_get s (tracks s) (unat track_id))))"

definition blastmidi_get_last_event_on_track ::
  "blastmidi option \<Rightarrow> u16 \<Rightarrow> addr option option \<Rightarrow> blastmidi_errors \<times> addr option option" where
  "blastmidi_get_last_event_on_track instance track_id event =
     (case instance of
        None \<Rightarrow> (BLASTMIDI_INVALIDPARAM, event)
      | Some s \<Rightarrow>
          if event = None then (BLASTMIDI_INVALIDPARAM, event)
          else if unat (track_count s) \<le> unat track_id then (BLASTMIDI_INVALIDPARAM, event)
          else (BLASTMIDI_OK, Some (array_get s (track_ends s) (unat track_id))))"

definition blastmidi_get_next_event_on_track ::
  "blastmidi option \<Rightarrow> addr option option \<Rightarrow> blastmidi_errors \<times> addr option option" where
  "blastmidi_get_next_event_on_track instance event =
     (case instance of
        None \<Rightarrow> (BLASTMIDI_INVALIDPARAM, event)
      | Some s \<Rightarrow>
          (case event of
             None \<Rightarrow> (BLASTMIDI_INVALIDPARAM, event)
           | Some None \<Rightarrow> (BLASTMIDI_INVALIDPARAM, event)
           | Some (Some p) \<Rightarrow> (BLASTMIDI_OK, Some (next_of s p))))"

definition blastmidi_get_previous_event_on_track ::
  "blastmidi option \<Rightarrow> addr option option \<Rightarrow> blastmidi_errors \<times> addr option option" where
  "blastmidi_get_previous_event_on_track instance event =
     (case instance of
        None \<Rightarrow> (BLASTMIDI_INVALIDPARAM, event)
      | Some s \<Rightarrow>
          (case event of
             None \<Rightarrow> (BLASTMIDI_INVALIDPARAM, event)
           | Some None \<Rightarrow> (BLASTMIDI_INVALIDPARAM, event)
           | Some (Some p) \<Rightarrow> (BLASTMIDI_OK, Some (previous_of s p))))"

definition blastmidi_remove_event_from_track ::
  "blastmidi option \<Rightarrow> u16 \<Rightarrow> addr option \<Rightarrow> blastmidi_errors \<times> blastmidi option" where
  "blastmidi_remove_event_from_track instance track_id event =
     (case instance of
        None \<Rightarrow> (BLASTMIDI_INVALIDPARAM, None)
      | Some s \<Rightarrow>
          if unat (track_count s) \<le> unat track_id then (BLASTMIDI_INVALIDPARAM, Some s)
          else
     (case event of
        None \<Rightarrow> (BLASTMIDI_INVALIDPARAM, Some s)
      | Some ev \<Rightarrow>
     (case map_of (events s) ev of
        None \<Rightarrow> (BLASTMIDI_INVALIDPARAM, Some s)
      | Some e \<Rightarrow>
          if sint (track e) = - 1 then (BLASTMIDI_NOTADDED, Some s)
          else if sint (track e) \<noteq> uint track_id then (BLASTMIDI_NOTPARTOFTRACK, Some s)
          else
            let previous' = previous e;
                next' = next e;
                s1 = (case previous' of None \<Rightarrow> s
                      | Some p \<Rightarrow> update_event s p (\<lambda>e. e\<lparr>next := next'\<rparr>));
                s2 = (case next' of None \<Rightarrow> s1
                      | Some n \<Rightarrow> update_event s1 n (\<lambda>e. e\<lparr>previous := previous'\<rparr>));
                s3 = (if array_get s2 (tracks s2) (unat track_id) = Some ev
                      then array_set s2 (tracks s2) (unat track_id) next'
                      else s2);
                s4 = (if array_get s3 (track_ends s3) (unat track_id) = Some ev
                      then array_set s3 (track_ends s3) (unat track_id) previous'
                      else s3)
            in (BLASTMIDI_OK, Some (blastmidi_event_free s4 ev)))))"

subsection \<open>Wiping a track, resetting the instance\<close>

lemma length_delete_less:
  "map_of xs k = Some v \<Longrightarrow> length (AList.delete k xs) < length xs"
proof -
  assume "map_of xs k = Some v"
  then have "(k, v) \<in> set xs" by (rule map_of_SomeD)
  then show ?thesis
    unfolding AList.delete_eq by (intro length_filter_less [of "(k, v)"]) auto
qed

lemma events_blastmidi_event_free:
  "map_of (events s) a = Some e \<Longrightarrow> events (blastmidi_event_free s a) = AList.delete a (events s)"
  by (simp add: blastmidi_event_free_def free_function_event_def free_function_block_def Let_def
           split: data_ptr.splits)

text \<open>
  The \<^verbatim>\<open>while (current)\<close> loop of \<^verbatim>\<open>blastmidi_whipe_track\<close>. Reading \<^verbatim>\<open>current->next\<close>
  where \<open>current\<close> is not a live event is undefined in C: the model records that and
  leaves the loop.
\<close>

function whipe_loop :: "blastmidi \<Rightarrow> addr option \<Rightarrow> blastmidi" where
  "whipe_loop s current =
     (case current of
        None \<Rightarrow> s
      | Some c \<Rightarrow>
          (case map_of (events s) c of
             None \<Rightarrow> s\<lparr>undefined_behaviour := True\<rparr>
           | Some e \<Rightarrow> whipe_loop (blastmidi_event_free s c) (next e)))"
  by pat_completeness auto
termination
  by (relation "measure (\<lambda>(s, current). length (events s))")
     (auto simp: events_blastmidi_event_free length_delete_less)

declare whipe_loop.simps [simp del]

definition blastmidi_whipe_track :: "blastmidi option \<Rightarrow> u32 \<Rightarrow> blastmidi option" where
  "blastmidi_whipe_track instance track' =
     (case instance of
        None \<Rightarrow> None
      | Some s \<Rightarrow>
          if unat (track_count s) \<le> unat track' then Some s
          else Some (whipe_loop s (array_get s (tracks s) (unat track'))))"

lemma track_count_whipe_loop: "track_count (whipe_loop s current) = track_count s"
proof (induction s current rule: whipe_loop.induct)
  case (1 s current)
  show ?case
  proof (cases current)
    case None
    then show ?thesis by (simp add: whipe_loop.simps [of s])
  next
    case (Some c)
    show ?thesis
    proof (cases "map_of (events s) c")
      case None
      with Some show ?thesis by (simp add: whipe_loop.simps [of s])
    next
      case (Some e)
      have "track_count (blastmidi_event_free s c) = track_count s"
        by (simp add: blastmidi_event_free_def free_function_event_def free_function_block_def
              Let_def split: option.splits data_ptr.splits)
      with "1.IH" [OF \<open>current = Some c\<close> Some] \<open>current = Some c\<close> Some
      show ?thesis by (simp add: whipe_loop.simps [of s])
    qed
  qed
qed

text \<open>The \<^verbatim>\<open>for\<close> loop of \<^verbatim>\<open>reset\<close>, from track \<open>i\<close> on.\<close>

function reset_loop :: "blastmidi \<Rightarrow> nat \<Rightarrow> blastmidi" where
  "reset_loop s i =
     (if i < unat (track_count s)
      then reset_loop (case blastmidi_whipe_track (Some s) (word_of_nat i) of
                         None \<Rightarrow> s | Some s1 \<Rightarrow> s1) (Suc i)
      else s)"
  by pat_completeness auto
termination
  by (relation "measure (\<lambda>(s, i). unat (track_count s) - i)")
     (auto simp: blastmidi_whipe_track_def track_count_whipe_loop)

declare reset_loop.simps [simp del]

definition reset :: "blastmidi \<Rightarrow> blastmidi" where
  "reset s =
     (let s1 = (case tracks s of
                  None \<Rightarrow> s
                | Some a \<Rightarrow> (free_function_array (reset_loop s 0) a)\<lparr>tracks := None\<rparr>);
          s2 = (case track_ends s1 of
                  None \<Rightarrow> s1
                | Some a \<Rightarrow> (free_function_array s1 a)\<lparr>track_ends := None\<rparr>)
      in s2\<lparr>track_count := 0, file_type := 0, time_type := 0, ticks_per_beat := 0,
            SMPTE_frames := 0, ticks_per_frame := 0, valid := 0, cursor := 0,
            running_status := 0, sysex_continuation := 0\<rparr>)"

text \<open>
  \<^verbatim>\<open>blastmidi_initialize\<close>. \<^verbatim>\<open>memset\<close> clears the fields of the structure; what the heap
  holds is not part of the structure and stays. \<open>user_malloc\<close> is \<open>None\<close> for a null
  pointer, otherwise the plan of the caller's allocator; the system allocator never
  fails.
\<close>

definition blastmidi_initialize ::
  "blastmidi \<Rightarrow> bool list option \<Rightarrow> unit option \<Rightarrow> blastmidi_errors \<times> blastmidi" where
  "blastmidi_initialize instance user_malloc user_free =
     (let s0 = instance\<lparr>data_callback := None, endian_flag := 0, malloc_plan := [],
                        track_count := 0, file_type := 0, time_type := 0, ticks_per_beat := 0,
                        SMPTE_frames := 0, ticks_per_frame := 0, valid := 0, tracks := None,
                        track_ends := None, cursor := 0, running_status := 0,
                        sysex_continuation := 0\<rparr>;
          s1 = (if is_little_endian (host_little_endian s0) then s0\<lparr>endian_flag := 1\<rparr>
                else s0\<lparr>endian_flag := 2\<rparr>)
      in if (user_malloc \<noteq> None \<or> user_free \<noteq> None) \<and> (user_malloc = None \<or> user_free = None)
         then (BLASTMIDI_INVALIDPARAM, s1)
         else (case user_malloc of
                 None \<Rightarrow> (BLASTMIDI_OK, s1\<lparr>malloc_plan := []\<rparr>)
               | Some plan \<Rightarrow> (BLASTMIDI_OK, s1\<lparr>malloc_plan := plan\<rparr>)))"

definition blastmidi_set_data_callback :: "blastmidi \<Rightarrow> stream option \<Rightarrow> blastmidi" where
  "blastmidi_set_data_callback instance callback = instance\<lparr>data_callback := callback\<rparr>"

definition blastmidi_free :: "blastmidi \<Rightarrow> blastmidi" where
  "blastmidi_free instance = reset instance"

section \<open>\<^verbatim>\<open>blastmidi.c\<close>: the decoder\<close>

text \<open>
  \<^verbatim>\<open>read_meta_event\<close>. The result is the error code, \<^verbatim>\<open>*end_of_track\<close> and \<^verbatim>\<open>*event_ptr\<close>
  after the call (the caller initialises them to 0 and to null) and the new state.
\<close>

definition read_meta_event ::
  "blastmidi \<Rightarrow> blastmidi_errors \<times> u8 \<times> addr option \<times> blastmidi" where
  "read_meta_event s =
     (case read_byte s of (result, type', s1) \<Rightarrow>
      if result \<noteq> BLASTMIDI_OK then (result, 0, None, s1) else
      case read_variable_number s1 of (result, event_size, s2) \<Rightarrow>
      if result \<noteq> BLASTMIDI_OK then (result, 0, None, s2) else
      if type' = BLASTMIDI_META_SEQUENCE_NUMBER then
        (case read_16_bit s2 of (result, sequence_number, s3) \<Rightarrow>
         if result \<noteq> BLASTMIDI_OK then (result, 0, None, s3) else
         case blastmidi_event_create_meta_sequence_number_event s3 sequence_number of
           (result, event, s4) \<Rightarrow>
         if result \<noteq> BLASTMIDI_OK then (result, 0, None, s4) else (BLASTMIDI_OK, 0, event, s4))
      else if type' = BLASTMIDI_META_TEXT \<or> type' = BLASTMIDI_META_COPYRIGHT_NOTICE
           \<or> type' = BLASTMIDI_META_SEQUENCE_OR_TRACK_NAME
           \<or> type' = BLASTMIDI_META_INSTRUMENT_NAME \<or> type' = BLASTMIDI_META_LYRICS
           \<or> type' = BLASTMIDI_META_MARKER \<or> type' = BLASTMIDI_META_CUE_POINT
           \<or> type' = BLASTMIDI_META_SEQUENCER_SPECIFIC then
        (case blastmidi_event_create_meta_data_event s2 type' None event_size of
           (result, event, s3) \<Rightarrow>
         if result \<noteq> BLASTMIDI_OK then (result, 0, None, s3) else
         (case event of
            None \<Rightarrow> (BLASTMIDI_OK, 0, None, s3)
          | Some ev \<Rightarrow>
              (case read_bytes s3 (unat event_size) of (result, buffer, s4) \<Rightarrow>
               if result \<noteq> BLASTMIDI_OK then (result, 0, None, blastmidi_event_free s4 ev)
               else (BLASTMIDI_OK, 0, Some ev, write_data s4 ev buffer (unat event_size)))))
      else if type' = BLASTMIDI_META_MIDI_CHANNEL_PREFIX then
        (case read_byte s2 of (result, channel', s3) \<Rightarrow>
         if result \<noteq> BLASTMIDI_OK then (result, 0, None, s3) else
         case blastmidi_event_create_meta_midi_channel_prefix_event s3 channel' of
           (result, event, s4) \<Rightarrow>
         if result \<noteq> BLASTMIDI_OK then (result, 0, None, s4) else (BLASTMIDI_OK, 0, event, s4))
      else if type' = BLASTMIDI_META_END_OF_TRACK then (BLASTMIDI_OK, 1, None, s2)
      else if type' = BLASTMIDI_META_SET_TEMPO then
        (case read_24_bit s2 0 of (result, tempo, s3) \<Rightarrow>
         if result \<noteq> BLASTMIDI_OK then (result, 0, None, s3) else
         case blastmidi_event_create_meta_tempo_event s3 tempo of (result, event, s4) \<Rightarrow>
         if result \<noteq> BLASTMIDI_OK then (result, 0, None, s4) else (BLASTMIDI_OK, 0, event, s4))
      else if type' = BLASTMIDI_META_SMPTE_OFFSET then
        (case skip_ahead s2 5 of (result, s3) \<Rightarrow>
         if result \<noteq> BLASTMIDI_OK then (result, 0, None, s3) else (BLASTMIDI_OK, 0, None, s3))
      else if type' = BLASTMIDI_META_TIME_SIGNATURE then
        (case read_byte s2 of (result, numerator, s3) \<Rightarrow>
         if result \<noteq> BLASTMIDI_OK then (result, 0, None, s3) else
         case read_byte s3 of (result, denominator, s4) \<Rightarrow>
         if result \<noteq> BLASTMIDI_OK then (result, 0, None, s4) else
         case read_byte s4 of (result, metronome, s5) \<Rightarrow>
         if result \<noteq> BLASTMIDI_OK then (result, 0, None, s5) else
         case read_byte s5 of (result, thirtyseconds_per_24_signals, s6) \<Rightarrow>
         if result \<noteq> BLASTMIDI_OK then (result, 0, None, s6) else
         case blastmidi_event_create_meta_time_signature_event s6 numerator denominator
                metronome thirtyseconds_per_24_signals of (result, event, s7) \<Rightarrow>
         if result \<noteq> BLASTMIDI_OK then (result, 0, None, s7) else (BLASTMIDI_OK, 0, event, s7))
      else if type' = BLASTMIDI_META_KEY_SIGNATURE then
        (case read_byte s2 of (result, key, s3) \<Rightarrow>
         if result \<noteq> BLASTMIDI_OK then (result, 0, None, s3) else
         case read_byte s3 of (result, scale, s4) \<Rightarrow>
         if result \<noteq> BLASTMIDI_OK then (result, 0, None, s4) else
         case blastmidi_event_create_meta_key_signature_event s4 key scale of
           (result, event, s5) \<Rightarrow>
         if result \<noteq> BLASTMIDI_OK then (result, 0, None, s5) else (BLASTMIDI_OK, 0, event, s5))
      else
        (case skip_ahead s2 (unat event_size) of (result, s3) \<Rightarrow>
         if result \<noteq> BLASTMIDI_OK then (result, 0, None, s3) else (BLASTMIDI_OK, 0, None, s3)))"

text \<open>
  \<^verbatim>\<open>read_sysex_event\<close>: the error code, \<^verbatim>\<open>*event_ptr\<close> after the call and the new state.
\<close>

definition read_sysex_event :: "blastmidi \<Rightarrow> blastmidi_errors \<times> addr option \<times> blastmidi" where
  "read_sysex_event s =
     (case read_variable_number s of (result, event_size, s1) \<Rightarrow>
      if result \<noteq> BLASTMIDI_OK then (result, None, s1) else
      if event_size = 0 then (BLASTMIDI_OK, None, s1) else
      case blastmidi_event_create_sysex_event s1 None (event_size - 1) 1 of
        (result, event, s2) \<Rightarrow>
      if result \<noteq> BLASTMIDI_OK then (result, None, s2) else
      (case event of
         None \<Rightarrow> (BLASTMIDI_OK, None, s2)
       | Some ev \<Rightarrow>
      (case (if 1 < event_size
             then (case read_bytes s2 (unat (event_size - 1)) of
                     (result, buffer, s3) \<Rightarrow>
                       if result \<noteq> BLASTMIDI_OK then (result, s3)
                       else (BLASTMIDI_OK, write_data s3 ev buffer (unat (event_size - 1))))
             else (BLASTMIDI_OK, s2)) of (result, s3) \<Rightarrow>
       if result \<noteq> BLASTMIDI_OK then (result, None, blastmidi_event_free s3 ev) else
       (case read_byte s3 of (result, final_byte, s4) \<Rightarrow>
        if result \<noteq> BLASTMIDI_OK then (result, None, blastmidi_event_free s4 ev) else
        if final_byte = 0xF7 then (BLASTMIDI_OK, Some ev, s4\<lparr>sysex_continuation := 0\<rparr>)
        else (BLASTMIDI_OK, Some ev,
              update_event (s4\<lparr>sysex_continuation := 1\<rparr>) ev
                (\<lambda>e. e\<lparr>end_of_sysex := 0\<rparr>))))))"

definition read_authorization_sysex_event ::
  "blastmidi \<Rightarrow> blastmidi_errors \<times> addr option \<times> blastmidi" where
  "read_authorization_sysex_event s =
     (case read_variable_number s of (result, event_size, s1) \<Rightarrow>
      if result \<noteq> BLASTMIDI_OK then (result, None, s1) else
      if event_size = 0 then (BLASTMIDI_OK, None, s1) else
      case blastmidi_event_create_sysex_event s1 None event_size 1 of (result, event, s2) \<Rightarrow>
      if result \<noteq> BLASTMIDI_OK then (result, None, s2) else
      (case event of
         None \<Rightarrow> (BLASTMIDI_OK, None, s2)
       | Some ev \<Rightarrow>
           (case read_bytes s2 (unat event_size) of (result, buffer, s3) \<Rightarrow>
            if result \<noteq> BLASTMIDI_OK then (result, None, blastmidi_event_free s3 ev)
            else (BLASTMIDI_OK, Some ev, write_data s3 ev buffer (unat event_size)))))"

text \<open>
  \<^verbatim>\<open>read_track_events\<close> in three parts. \<open>read_track_events_dispatch\<close> is the
  \<^verbatim>\<open>switch (event_type)\<close> of the loop body: the error code, \<^verbatim>\<open>end_of_track\<close>, \<^verbatim>\<open>event\<close>
  and the state after it.
\<close>

definition read_track_events_dispatch ::
  "blastmidi \<Rightarrow> u8 \<Rightarrow> blastmidi_errors \<times> u8 \<times> addr option \<times> blastmidi" where
  "read_track_events_dispatch s event_type =
     (if event_type = 0xFF then read_meta_event s
      else if event_type = 0xF0 then
        (case read_sysex_event s of (result, event, s1) \<Rightarrow> (result, 0, event, s1))
      else if event_type = 0xF7 then
        (case (if sysex_continuation s = 1 then read_sysex_event s
               else read_authorization_sysex_event s) of
           (result, event, s1) \<Rightarrow> (result, 0, event, s1))
      else
        let new_status_bit = extract_bits_8 event_type 1 1;
            event_type1 = (if new_status_bit = 0 then running_status s else event_type);
            s1 = (if new_status_bit = 0 then snd (skip_backwards s 1) else s);
            s2 = s1\<lparr>running_status := event_type1\<rparr>;
            midi_event_type = extract_bits_8 event_type1 1 4;
            channel' = extract_bits_8 event_type1 5 8
        in if midi_event_type = BLASTMIDI_CHANNEL_NOTE_OFF
              \<or> midi_event_type = BLASTMIDI_CHANNEL_NOTE_ON
              \<or> midi_event_type = BLASTMIDI_CHANNEL_NOTE_AFTERTOUCH
              \<or> midi_event_type = BLASTMIDI_CHANNEL_CONTROLLER
              \<or> midi_event_type = BLASTMIDI_CHANNEL_PITCH_BEND then
             (case read_byte s2 of (result, first, s3) \<Rightarrow>
              if result \<noteq> BLASTMIDI_OK then (result, 0, None, s3) else
              case read_byte s3 of (result, second, s4) \<Rightarrow>
              if result \<noteq> BLASTMIDI_OK then (result, 0, None, s4) else
              case blastmidi_event_create_channel_event s4 channel' midi_event_type first second of
                (result, event, s5) \<Rightarrow>
              if result \<noteq> BLASTMIDI_OK then (result, 0, None, s5)
              else (BLASTMIDI_OK, 0, event, s5))
           else if midi_event_type = BLASTMIDI_CHANNEL_PROGRAM_CHANGE
              \<or> midi_event_type = BLASTMIDI_CHANNEL_CHANNEL_AFTERTOUCH then
             (case read_byte s2 of (result, first, s3) \<Rightarrow>
              if result \<noteq> BLASTMIDI_OK then (result, 0, None, s3) else
              case blastmidi_event_create_channel_event s3 channel' midi_event_type first 0 of
                (result, event, s4) \<Rightarrow>
              if result \<noteq> BLASTMIDI_OK then (result, 0, None, s4)
              else (BLASTMIDI_OK, 0, event, s4))
           else (BLASTMIDI_INVALIDCHUNK, 0, None, s2))"

text \<open>
  \<open>read_track_events_step\<close> is one pass through the body of \<^verbatim>\<open>while (1)\<close>: the error code,
  \<^verbatim>\<open>end_of_track\<close> and the state at the end of the pass.
\<close>

definition read_track_events_step ::
  "blastmidi \<Rightarrow> u16 \<Rightarrow> blastmidi_errors \<times> u8 \<times> blastmidi" where
  "read_track_events_step s track_id =
     (case read_variable_number s of (result, delta_time, s1) \<Rightarrow>
      if result \<noteq> BLASTMIDI_OK then (result, 0, s1) else
      case read_byte s1 of (result, event_type, s2) \<Rightarrow>
      if result \<noteq> BLASTMIDI_OK then (result, 0, s2) else
      case read_track_events_dispatch s2 event_type of (result, end_of_track, event, s3) \<Rightarrow>
      if result \<noteq> BLASTMIDI_OK then (result, end_of_track, s3) else
      (case event of
         None \<Rightarrow> (BLASTMIDI_OK, end_of_track, s3)
       | Some ev \<Rightarrow>
           (case blastmidi_add_event_to_end_of_track (Some s3) track_id (Some ev) delta_time of
              (result, instance) \<Rightarrow>
                let s4 = (case instance of None \<Rightarrow> s3 | Some s' \<Rightarrow> s')
                in if result \<noteq> BLASTMIDI_OK
                   then (result, end_of_track, blastmidi_event_free s4 ev)
                   else (BLASTMIDI_OK, end_of_track, s4))))"

subsection \<open>Progress of the decoder through the stream\<close>

text \<open>
  What is left of the stream, as a measure for the event loop. A read moves the stream
  and the cursor together; a seek puts the stream where the cursor says. While the two
  disagree the measure carries an extra \<open>2 * length + 1\<close>, which the first seek removes.
\<close>

definition remaining :: "blastmidi \<Rightarrow> nat" where
  "remaining s =
     (case data_callback s of
        None \<Rightarrow> 0
      | Some st \<Rightarrow>
          (if position st = cursor s then 0 else 2 * length (contents st) + 1)
          + (length (contents st) - position st))"

text \<open>
  What allocation and list surgery leave alone: the stream, the cursor, the number of
  tracks, the two array pointers and the addresses of the live arrays.
\<close>

definition io ::
  "blastmidi \<Rightarrow> stream option \<times> nat \<times> u16 \<times> addr option \<times> addr option \<times> addr list" where
  "io s = (data_callback s, cursor s, track_count s, tracks s, track_ends s, map fst (arrays s))"

text \<open>The last three of them: the array pointers and the addresses of the live arrays.\<close>

definition array_frame :: "blastmidi \<Rightarrow> addr option \<times> addr option \<times> addr list" where
  "array_frame s = (tracks s, track_ends s, map fst (arrays s))"

lemma io_array_frame: "io s' = io s \<Longrightarrow> array_frame s' = array_frame s"
  by (simp add: io_def array_frame_def)

lemma io_remaining: "io s' = io s \<Longrightarrow> remaining s' = remaining s"
  by (simp add: io_def remaining_def split: option.splits)

lemma io_track_count: "io s' = io s \<Longrightarrow> track_count s' = track_count s"
  by (simp add: io_def)

lemma io_upd [simp]:
  "io (s\<lparr>events := ev\<rparr>) = io s"
  "io (s\<lparr>blocks := bl\<rparr>) = io s"
  "io (s\<lparr>malloc_plan := mp\<rparr>) = io s"
  "io (s\<lparr>next_addr := na\<rparr>) = io s"
  "io (s\<lparr>undefined_behaviour := ub\<rparr>) = io s"
  "io (s\<lparr>running_status := rs\<rparr>) = io s"
  "io (s\<lparr>sysex_continuation := sc\<rparr>) = io s"
  by (simp_all add: io_def)

lemma map_fst_update_present:
  "map_of al k = Some v \<Longrightarrow> map fst (AList.update k v' al) = map fst al"
  by (auto simp: update_keys dest: map_of_SomeD intro: rev_image_eqI)

lemma io_array_set [simp]: "io (array_set s arr i v) = io s"
  by (simp add: array_set_def io_def map_fst_update_present split: option.splits)

lemma io_malloc_function: "malloc_function s n = (p, s') \<Longrightarrow> io s' = io s"
  by (auto simp: malloc_function_def split: list.splits if_splits)

lemma io_set_event [simp]: "io (set_event s a e) = io s"
  by (simp add: set_event_def)

lemma io_update_event [simp]: "io (update_event s a f) = io s"
  by (simp add: update_event_def split: option.splits)

lemma io_write_data [simp]: "io (write_data s a buf n) = io s"
  by (simp add: write_data_def split: option.splits data_ptr.splits)

lemma io_free_function_event [simp]: "io (free_function_event s a) = io s"
  by (simp add: free_function_event_def)

lemma io_free_function_block [simp]: "io (free_function_block s a) = io s"
  by (simp add: free_function_block_def)

lemma io_blastmidi_event_free [simp]: "io (blastmidi_event_free s a) = io s"
  by (simp add: blastmidi_event_free_def Let_def split: option.splits data_ptr.splits)

lemma io_allocate_event:
  "allocate_event s t st d n = (r, out, s') \<Longrightarrow> io s' = io s"
  by (auto simp: allocate_event_def Let_def split: prod.splits option.splits if_splits
           dest!: io_malloc_function)

lemma io_create_channel_event:
  "blastmidi_event_create_channel_event s c st p1 p2 = (r, out, s') \<Longrightarrow> io s' = io s"
  by (auto simp: blastmidi_event_create_channel_event_def Let_def
           split: prod.splits option.splits if_splits dest!: io_allocate_event)

lemma io_create_meta_sequence_number_event:
  "blastmidi_event_create_meta_sequence_number_event s n = (r, out, s') \<Longrightarrow> io s' = io s"
  by (auto simp: blastmidi_event_create_meta_sequence_number_event_def
           split: prod.splits if_splits dest!: io_allocate_event)

lemma io_create_meta_tempo_event:
  "blastmidi_event_create_meta_tempo_event s n = (r, out, s') \<Longrightarrow> io s' = io s"
  by (auto simp: blastmidi_event_create_meta_tempo_event_def
           split: prod.splits if_splits dest!: io_allocate_event)

lemma io_create_meta_data_event:
  "blastmidi_event_create_meta_data_event s st d n = (r, out, s') \<Longrightarrow> io s' = io s"
  by (auto simp: blastmidi_event_create_meta_data_event_def
           split: prod.splits if_splits dest!: io_allocate_event)

lemma io_create_meta_midi_channel_prefix_event:
  "blastmidi_event_create_meta_midi_channel_prefix_event s c = (r, out, s') \<Longrightarrow> io s' = io s"
  by (auto simp: blastmidi_event_create_meta_midi_channel_prefix_event_def
           split: prod.splits if_splits dest!: io_allocate_event)

lemma io_create_meta_time_signature_event:
  "blastmidi_event_create_meta_time_signature_event s a b c d = (r, out, s') \<Longrightarrow> io s' = io s"
  by (auto simp: blastmidi_event_create_meta_time_signature_event_def
           split: prod.splits if_splits dest!: io_allocate_event)

lemma io_create_meta_key_signature_event:
  "blastmidi_event_create_meta_key_signature_event s k sc = (r, out, s') \<Longrightarrow> io s' = io s"
  by (auto simp: blastmidi_event_create_meta_key_signature_event_def
           split: prod.splits if_splits dest!: io_allocate_event)

lemma io_create_sysex_event:
  "blastmidi_event_create_sysex_event s d n e = (r, out, s') \<Longrightarrow> io s' = io s"
  by (auto simp: blastmidi_event_create_sysex_event_def
           split: prod.splits option.splits if_splits dest!: io_allocate_event)

lemma io_blastmidi_add_event:
  "blastmidi_add_event (Some s) tid ev dt aa = (r, inst) \<Longrightarrow> \<exists>s'. inst = Some s' \<and> io s' = io s"
  by (auto simp: blastmidi_add_event_def Let_def split: option.splits if_splits)

lemma io_blastmidi_add_event_to_end_of_track:
  "blastmidi_add_event_to_end_of_track (Some s) tid ev dt = (r, inst)
     \<Longrightarrow> \<exists>s'. inst = Some s' \<and> io s' = io s"
  by (auto simp: blastmidi_add_event_to_end_of_track_def split: option.splits if_splits
           dest!: io_blastmidi_add_event)


lemma io_eqD: "io s' = io s \<Longrightarrow> remaining s' = remaining s \<and> track_count s' = track_count s"
  by (auto intro: io_remaining io_track_count)

lemma remaining_write_data [simp]: "remaining (write_data s a buf n) = remaining s"
  by (rule io_remaining) simp

lemma remaining_update_event [simp]: "remaining (update_event s a f) = remaining s"
  by (rule io_remaining) simp

lemma remaining_blastmidi_event_free [simp]: "remaining (blastmidi_event_free s a) = remaining s"
  by (rule io_remaining) simp

lemma remaining_running_status [simp]: "remaining (s\<lparr>running_status := rs\<rparr>) = remaining s"
  by (rule io_remaining) simp

lemma remaining_sysex_continuation [simp]:
  "remaining (s\<lparr>sysex_continuation := sc\<rparr>) = remaining s"
  by (rule io_remaining) simp

lemma track_count_write_data [simp]: "track_count (write_data s a buf n) = track_count s"
  by (rule io_track_count) simp

lemma track_count_update_event [simp]: "track_count (update_event s a f) = track_count s"
  by (rule io_track_count) simp

lemma track_count_blastmidi_event_free [simp]:
  "track_count (blastmidi_event_free s a) = track_count s"
  by (rule io_track_count) simp

lemma read_bytes_adv:
  "read_bytes s n = (BLASTMIDI_OK, buf, s')
     \<Longrightarrow> remaining s' + n = remaining s \<and> track_count s' = track_count s"
  by (auto simp: read_bytes_def stream_callback_def remaining_def split: option.splits if_splits)

lemma skip_ahead_adv:
  "skip_ahead s n = (BLASTMIDI_OK, s')
     \<Longrightarrow> remaining s' + n \<le> remaining s \<and> track_count s' = track_count s"
  by (auto simp: skip_ahead_def stream_callback_def remaining_def split: option.splits if_splits)

lemma skip_backwards_adv:
  "remaining (snd (skip_backwards s 1)) \<le> remaining s + 1
     \<and> track_count (snd (skip_backwards s 1)) = track_count s"
  by (auto simp: skip_backwards_def stream_callback_def remaining_def split: option.splits if_splits)

lemma read_byte_adv:
  "read_byte s = (BLASTMIDI_OK, b, s')
     \<Longrightarrow> remaining s' + 1 = remaining s \<and> track_count s' = track_count s"
  by (auto simp: read_byte_def dest: read_bytes_adv split: prod.splits)

lemma read_16_bit_adv:
  "read_16_bit s = (BLASTMIDI_OK, b, s')
     \<Longrightarrow> remaining s' + 2 = remaining s \<and> track_count s' = track_count s"
  by (auto simp: read_16_bit_def dest: read_bytes_adv split: prod.splits if_splits)

lemma read_32_bit_adv:
  "read_32_bit s = (BLASTMIDI_OK, b, s')
     \<Longrightarrow> remaining s' + 4 = remaining s \<and> track_count s' = track_count s"
  by (auto simp: read_32_bit_def dest: read_bytes_adv split: prod.splits if_splits)

lemma read_24_bit_adv:
  "read_24_bit s b0 = (BLASTMIDI_OK, b, s')
     \<Longrightarrow> remaining s' + 3 = remaining s \<and> track_count s' = track_count s"
  by (auto simp: read_24_bit_def Let_def dest: read_bytes_adv split: prod.splits if_splits)

lemma read_variable_number_loop_remaining:
  "read_variable_number_loop s buf i = (BLASTMIDI_OK, v, s') \<Longrightarrow> i < 4
     \<Longrightarrow> remaining s' + 1 \<le> remaining s \<and> track_count s' = track_count s"
proof (induction s buf i rule: read_variable_number_loop.induct)
  case (1 s buffer i)
  obtain r c s1 where rb: "read_byte s = (r, c, s1)" by (cases "read_byte s") auto
  show ?case
  proof (cases "r = BLASTMIDI_OK")
    case False
    with "1.prems" rb show ?thesis
      by (simp add: read_variable_number_loop.simps [of s])
  next
    case True
    with rb have rem: "remaining s1 + 1 = remaining s \<and> track_count s1 = track_count s"
      by (auto dest: read_byte_adv)
    show ?thesis
    proof (cases "extract_bits_8 c 1 1 = 0")
      case True
      with "1.prems" rb \<open>r = BLASTMIDI_OK\<close> rem show ?thesis
        by (simp add: read_variable_number_loop.simps [of s] Let_def split: if_splits)
    next
      case False
      show ?thesis
      proof (cases "i = 3")
        case True
        with "1.prems" rb \<open>r = BLASTMIDI_OK\<close> rem False show ?thesis
          by (simp add: read_variable_number_loop.simps [of s] Let_def
                read_variable_number_loop.simps [of s1 _ 4] split: if_splits)
      next
        case i3: False
        then have "Suc i < 4" using "1.prems" by simp
        have "i < 4" using "1.prems" by simp
        have "extract_bits_8 c 1 1 = 1 \<longrightarrow> i \<noteq> 3" using i3 by simp
        with "1.prems" rb \<open>r = BLASTMIDI_OK\<close> False
        have rec: "read_variable_number_loop s1 (push_bit 7 buffer OR ucast (c AND 0x7f)) (Suc i)
                 = (BLASTMIDI_OK, v, s')"
          by (simp add: read_variable_number_loop.simps [of s] Let_def split: if_splits)
        have nn: "\<not> r \<noteq> BLASTMIDI_OK" using \<open>r = BLASTMIDI_OK\<close> by simp
        have n3: "\<not> (extract_bits_8 c 1 1 = 1 \<and> i = 3)" using i3 by simp
        have "remaining s' + 1 \<le> remaining s1 \<and> track_count s' = track_count s1"
          by (rule "1.IH" [OF \<open>i < 4\<close> rb [symmetric] refl nn refl n3 refl False rec \<open>Suc i < 4\<close>])
        with rem show ?thesis by simp
      qed
    qed
  qed
qed




lemma read_variable_number_adv:
  "read_variable_number s = (BLASTMIDI_OK, v, s')
     \<Longrightarrow> remaining s' + 1 \<le> remaining s \<and> track_count s' = track_count s"
  using read_variable_number_loop_remaining [of s 0 0 v s'] by (simp add: read_variable_number_def)

lemmas heap_adv =
  io_create_channel_event [THEN io_eqD]
  io_create_meta_sequence_number_event [THEN io_eqD]
  io_create_meta_tempo_event [THEN io_eqD]
  io_create_meta_data_event [THEN io_eqD]
  io_create_meta_midi_channel_prefix_event [THEN io_eqD]
  io_create_meta_time_signature_event [THEN io_eqD]
  io_create_meta_key_signature_event [THEN io_eqD]
  io_create_sysex_event [THEN io_eqD]

lemmas stream_adv =
  read_bytes_adv read_byte_adv read_16_bit_adv read_24_bit_adv read_32_bit_adv
  read_variable_number_adv skip_ahead_adv

lemma read_meta_event_adv:
  "read_meta_event s = (BLASTMIDI_OK, eot, ev, s')
     \<Longrightarrow> remaining s' + 2 \<le> remaining s \<and> track_count s' = track_count s"
  unfolding read_meta_event_def
  by (auto split: prod.splits if_splits option.splits dest!: heap_adv stream_adv)

lemma read_sysex_event_adv:
  "read_sysex_event s = (BLASTMIDI_OK, ev, s')
     \<Longrightarrow> remaining s' + 1 \<le> remaining s \<and> track_count s' = track_count s"
  unfolding read_sysex_event_def
  by (auto split: prod.splits if_splits option.splits dest!: heap_adv stream_adv)

lemma read_authorization_sysex_event_adv:
  "read_authorization_sysex_event s = (BLASTMIDI_OK, ev, s')
     \<Longrightarrow> remaining s' + 1 \<le> remaining s \<and> track_count s' = track_count s"
  unfolding read_authorization_sysex_event_def
  by (auto split: prod.splits if_splits option.splits dest!: heap_adv stream_adv)


lemma read_track_events_dispatch_adv:
  "read_track_events_dispatch s event_type = (BLASTMIDI_OK, eot, ev, s')
     \<Longrightarrow> remaining s' \<le> remaining s \<and> track_count s' = track_count s"
  unfolding read_track_events_dispatch_def Let_def
  using skip_backwards_adv [of s]
  by (auto split: prod.splits if_splits
           dest!: heap_adv stream_adv read_meta_event_adv read_sysex_event_adv
                  read_authorization_sysex_event_adv)

lemma add_event_to_end_adv:
  assumes "blastmidi_add_event_to_end_of_track (Some s) tid ev dt = (r, inst)"
  shows "remaining (case inst of None \<Rightarrow> s | Some s' \<Rightarrow> s') = remaining s
         \<and> track_count (case inst of None \<Rightarrow> s | Some s' \<Rightarrow> s') = track_count s"
proof -
  from io_blastmidi_add_event_to_end_of_track [OF assms]
  obtain s' where "inst = Some s'" "io s' = io s" by blast
  then show ?thesis using io_eqD [of s' s] by simp
qed

lemma read_track_events_step_adv:
  "read_track_events_step s track_id = (BLASTMIDI_OK, eot, s')
     \<Longrightarrow> remaining s' < remaining s \<and> track_count s' = track_count s"
  unfolding read_track_events_step_def Let_def
  by (auto split: prod.splits if_splits option.splits
           dest!: stream_adv read_track_events_dispatch_adv add_event_to_end_adv)

text \<open>
  The loop \<^verbatim>\<open>while (1)\<close> of \<^verbatim>\<open>read_track_events\<close>: it leaves with the error of a failed
  pass, or with \<^verbatim>\<open>BLASTMIDI_OK\<close> after the pass that saw the end of the track.
\<close>

function read_track_events :: "blastmidi \<Rightarrow> u16 \<Rightarrow> blastmidi_errors \<times> blastmidi" where
  "read_track_events s track_id =
     (case read_track_events_step s track_id of
        (result, end_of_track, s1) \<Rightarrow>
          if result \<noteq> BLASTMIDI_OK then (result, s1)
          else if end_of_track \<noteq> 0 then (BLASTMIDI_OK, s1)
          else read_track_events s1 track_id)"
  by pat_completeness auto
termination
  by (relation "measure (\<lambda>(s, track_id). remaining s)")
     (auto dest!: read_track_events_step_adv [OF sym])

declare read_track_events.simps [simp del]

lemma read_track_events_track_count:
  "read_track_events s track_id = (BLASTMIDI_OK, s') \<Longrightarrow> track_count s' = track_count s"
proof (induction s track_id rule: read_track_events.induct)
  case (1 s track_id)
  obtain r eot s1 where st: "read_track_events_step s track_id = (r, eot, s1)"
    by (cases "read_track_events_step s track_id") auto
  show ?case
  proof (cases "r = BLASTMIDI_OK")
    case False
    with "1.prems" st show ?thesis by (simp add: read_track_events.simps [of s])
  next
    case True
    with st have tc: "track_count s1 = track_count s"
      by (auto dest: read_track_events_step_adv)
    show ?thesis
    proof (cases "eot = 0")
      case False
      with "1.prems" st True tc show ?thesis by (simp add: read_track_events.simps [of s])
    next
      case eot0: True
      with "1.prems" st True have "read_track_events s1 track_id = (BLASTMIDI_OK, s')"
        by (simp add: read_track_events.simps [of s])
      moreover have "\<not> r \<noteq> BLASTMIDI_OK" "\<not> eot \<noteq> 0" using True eot0 by simp_all
      ultimately have "track_count s' = track_count s1"
        using "1.IH" [OF st [symmetric] refl] by blast
      with tc show ?thesis by simp
    qed
  qed
qed

text \<open>
  \<^verbatim>\<open>strcmp\<close> sees the bytes of its arguments up to the first zero byte.
\<close>

definition c_string :: "u8 list \<Rightarrow> u8 list" where
  "c_string bs = takeWhile (\<lambda>b. b \<noteq> 0) bs"

text \<open>The string literals \<^verbatim>\<open>"MTrk"\<close> and \<^verbatim>\<open>"MThd"\<close> in ASCII.\<close>

definition MTrk :: "u8 list" where
  "MTrk = [0x4D, 0x54, 0x72, 0x6B]"

definition MThd :: "u8 list" where
  "MThd = [0x4D, 0x54, 0x68, 0x64]"

definition read_track :: "blastmidi \<Rightarrow> u16 \<Rightarrow> blastmidi_errors \<times> blastmidi" where
  "read_track s track_id =
     (case read_bytes s 4 of (result, temp, s1) \<Rightarrow>
      if result \<noteq> BLASTMIDI_OK then (result, s1) else
      if c_string (temp @ [0]) \<noteq> c_string MTrk then (BLASTMIDI_INVALIDCHUNK, s1) else
      case read_32_bit s1 of (result, chunk_size, s2) \<Rightarrow>
      if result \<noteq> BLASTMIDI_OK then (result, s2) else
      if chunk_size = 0 then (BLASTMIDI_INVALIDCHUNK, s2) else
      read_track_events (s2\<lparr>running_status := 0, sysex_continuation := 0\<rparr>) track_id)"

text \<open>
  \<^verbatim>\<open>read_header\<close>. \<^verbatim>\<open>abs\<close> works on the \<^verbatim>\<open>int\<close> that the \<^verbatim>\<open>int8_t\<close> is promoted to, and
  its result is converted back to \<^verbatim>\<open>int8_t\<close>.
\<close>

definition read_header :: "blastmidi \<Rightarrow> blastmidi_errors \<times> blastmidi" where
  "read_header s =
     (case read_bytes s 4 of (result, temp, s1) \<Rightarrow>
      if result \<noteq> BLASTMIDI_OK then (result, s1) else
      if c_string (temp @ [0]) \<noteq> c_string MThd then (BLASTMIDI_INVALID, s1) else
      case read_32_bit s1 of (result, header_size, s2) \<Rightarrow>
      if result \<noteq> BLASTMIDI_OK then (result, s2) else
      if header_size \<noteq> 6 then (BLASTMIDI_INVALID, s2) else
      case read_16_bit s2 of (result, file_type', s3) \<Rightarrow>
      if result \<noteq> BLASTMIDI_OK then (result, s3) else
      if file_type' \<noteq> 0 \<and> file_type' \<noteq> 1 \<and> file_type' \<noteq> 2 then (BLASTMIDI_INVALID, s3) else
      let s4 = s3\<lparr>file_type := ucast file_type'\<rparr> in
      case read_16_bit s4 of (result, tracks', s5) \<Rightarrow>
      if result \<noteq> BLASTMIDI_OK then (result, s5) else
      if tracks' = 0 then (BLASTMIDI_INVALID, s5) else
      let s6 = s5\<lparr>track_count := tracks'\<rparr> in
      case read_16_bit s6 of (result, time_division, s7) \<Rightarrow>
      if result \<noteq> BLASTMIDI_OK then (result, s7) else
      let time_type' = (ucast (extract_bits_16 time_division 1 1) :: u8) in
      if time_type' \<noteq> 0 \<and> time_type' \<noteq> 1 then (BLASTMIDI_INVALID, s7) else
      if time_type' = 0 then
        let ticks_per_beat' = extract_bits_16 time_division 2 16 in
        if ticks_per_beat' = 0 then (BLASTMIDI_INVALID, s7)
        else (BLASTMIDI_OK, s7\<lparr>ticks_per_beat := ticks_per_beat', time_type := time_type'\<rparr>)
      else
        let frames0 = (ucast (extract_bits_16 time_division 1 8) :: u8);
            SMPTE_frames' = (word_of_int \<bar>sint frames0\<bar> :: u8) in
        if sint SMPTE_frames' \<noteq> 24 \<and> sint SMPTE_frames' \<noteq> 25
           \<and> sint SMPTE_frames' \<noteq> 29 \<and> sint SMPTE_frames' \<noteq> 30
        then (BLASTMIDI_INVALID, s7) else
        let ticks_per_frame' = (ucast (extract_bits_16 time_division 9 16) :: u8) in
        if ticks_per_frame' = 0 then (BLASTMIDI_INVALID, s7)
        else (BLASTMIDI_OK, s7\<lparr>SMPTE_frames := SMPTE_frames', ticks_per_frame := ticks_per_frame',
                                  time_type := time_type'\<rparr>))"

text \<open>
  \<^verbatim>\<open>allocate_tracks\<close>. Each array enters the heap at the address that \<^verbatim>\<open>malloc_function\<close>
  returned, and \<^verbatim>\<open>memset\<close> clears it: every slot is null.
\<close>

definition allocate_tracks :: "blastmidi \<Rightarrow> blastmidi_errors \<times> blastmidi" where
  "allocate_tracks s =
     (case malloc_function s (sizeof_pointer * unat (track_count s)) of
        (None, s1) \<Rightarrow> (BLASTMIDI_OUTOFMEMORY, reset (s1\<lparr>tracks := None\<rparr>))
      | (Some p, s1) \<Rightarrow>
          let s2 = s1\<lparr>tracks := Some p\<rparr>;
              s3 = s2\<lparr>arrays := AList.update p (replicate (unat (track_count s2)) None)
                                  (arrays s2)\<rparr>
          in (case malloc_function s3 (sizeof_pointer * unat (track_count s3)) of
                (None, s4) \<Rightarrow> (BLASTMIDI_OUTOFMEMORY, reset (s4\<lparr>track_ends := None\<rparr>))
              | (Some q, s4) \<Rightarrow>
                  let s5 = s4\<lparr>track_ends := Some q\<rparr>
                  in (BLASTMIDI_OK,
                      s5\<lparr>arrays := AList.update q (replicate (unat (track_count s5)) None)
                                       (arrays s5)\<rparr>)))"

lemma read_track_track_count:
  "read_track s track_id = (BLASTMIDI_OK, s') \<Longrightarrow> track_count s' = track_count s"
  unfolding read_track_def
  by (auto split: prod.splits if_splits
           dest!: read_bytes_adv read_32_bit_adv read_track_events_track_count)

text \<open>The \<^verbatim>\<open>for\<close> loop of \<^verbatim>\<open>blastmidi_read\<close>, from track \<open>i\<close> on.\<close>

function blastmidi_read_loop :: "blastmidi \<Rightarrow> nat \<Rightarrow> blastmidi_errors \<times> blastmidi" where
  "blastmidi_read_loop s i =
     (if i < unat (track_count s)
      then (case read_track s (word_of_nat i) of
              (result, s1) \<Rightarrow>
                if result \<noteq> BLASTMIDI_OK then (result, reset s1)
                else blastmidi_read_loop s1 (Suc i))
      else (BLASTMIDI_OK, s))"
  by pat_completeness auto
termination
  by (relation "measure (\<lambda>(s, i). unat (track_count s) - i)")
     (auto dest!: read_track_track_count [OF sym])

declare blastmidi_read_loop.simps [simp del]

definition blastmidi_read :: "blastmidi \<Rightarrow> blastmidi_errors \<times> blastmidi" where
  "blastmidi_read s =
     (if data_callback s = None then (BLASTMIDI_NOCALLBACK, s) else
      let s1 = reset s in
      case read_header s1 of (result, s2) \<Rightarrow>
      if result \<noteq> BLASTMIDI_OK then (result, reset s2) else
      case allocate_tracks s2 of (result, s3) \<Rightarrow>
      if result \<noteq> BLASTMIDI_OK then (result, reset s3) else
      case blastmidi_read_loop s3 0 of (result, s4) \<Rightarrow>
      if result \<noteq> BLASTMIDI_OK then (result, s4) else (BLASTMIDI_OK, s4\<lparr>valid := 1\<rparr>))"

section \<open>Properties\<close>

subsection \<open>Streams and example instances\<close>

text \<open>The bytes that the stream delivers next, and the state after \<open>n\<close> of them are read.\<close>

definition upcoming :: "blastmidi \<Rightarrow> u8 list" where
  "upcoming s = (case data_callback s of None \<Rightarrow> [] | Some st \<Rightarrow> drop (position st) (contents st))"

definition advance :: "blastmidi \<Rightarrow> nat \<Rightarrow> blastmidi" where
  "advance s n =
     (case data_callback s of
        None \<Rightarrow> s
      | Some st \<Rightarrow> s\<lparr>data_callback := Some (Stream (contents st) (position st + n)),
                      cursor := cursor s + n\<rparr>)"

text \<open>The accumulation \<^verbatim>\<open>(acc << 7) | (byte & 0x7F)\<close> over a list of bytes.\<close>

definition vlq_accumulate :: "u32 \<Rightarrow> u8 list \<Rightarrow> u32" where
  "vlq_accumulate acc bs = foldl (\<lambda>acc byte. push_bit 7 acc OR ucast (byte AND 0x7F)) acc bs"

lemma upcoming_Cons_Some: "upcoming s = b # bs \<Longrightarrow> \<exists>st. data_callback s = Some st"
  by (auto simp: upcoming_def split: option.splits)

lemma read_bytes_upcoming:
  assumes "upcoming s = bs @ rest" "bs \<noteq> []"
  shows "read_bytes s (length bs) = (BLASTMIDI_OK, bs, advance s (length bs))"
proof -
  from assms obtain st where st: "data_callback s = Some st"
    by (cases bs) (auto dest: upcoming_Cons_Some)
  with assms have d: "drop (position st) (contents st) = bs @ rest" by (simp add: upcoming_def)
  then have "length (drop (position st) (contents st)) = length bs + length rest" by simp
  with assms have "position st + length bs \<le> length (contents st)" by (cases bs) auto
  moreover have "take (length bs) (drop (position st) (contents st)) = bs" using d by simp
  ultimately show ?thesis using st
    by (simp add: read_bytes_def stream_callback_def advance_def)
qed

lemma upcoming_advance:
  assumes "upcoming s = bs @ rest" "bs \<noteq> []"
  shows "upcoming (advance s (length bs)) = rest"
proof -
  from assms obtain st where st: "data_callback s = Some st"
    by (cases bs) (auto dest: upcoming_Cons_Some)
  with assms have d: "drop (position st) (contents st) = bs @ rest" by (simp add: upcoming_def)
  have "drop (position st + length bs) (contents st) = drop (length bs) (drop (position st) (contents st))"
    by (simp add: add.commute)
  with d st show ?thesis by (simp add: upcoming_def advance_def)
qed

lemma advance_advance: "advance (advance s m) n = advance s (m + n)"
  by (simp add: advance_def add.assoc split: option.splits)

lemma read_byte_upcoming:
  "upcoming s = b # rest \<Longrightarrow> read_byte s = (BLASTMIDI_OK, b, advance s (Suc 0))"
  using read_bytes_upcoming [of s "[b]" rest] by (simp add: read_byte_def)

lemma upcoming_advance_1: "upcoming s = b # rest \<Longrightarrow> upcoming (advance s (Suc 0)) = rest"
  using upcoming_advance [of s "[b]" rest] by simp

lemma extract_top_bit: "extract_bits_8 b (Suc 0) (Suc 0) = (if bit b 7 then 1 else 0)"
proof -
  have "drop_bit 7 b = (if bit b 7 then 1 else (0 :: u8))"
  proof (rule bit_word_eqI)
    fix n :: nat
    have "bit b (7 + n) \<longleftrightarrow> n = 0 \<and> bit b 7"
      using bit_imp_le_length [of b "7 + n"] by (cases n) auto
    then show "bit (drop_bit 7 b) n = bit (if bit b 7 then 1 else (0 :: u8)) n"
      by (simp add: bit_simps)
  qed
  then show ?thesis by (simp add: extract_bits_8_def)
qed

lemma read_variable_number_loop_ok:
  "upcoming s = pre @ fin # rest \<Longrightarrow> i + length pre < 4 \<Longrightarrow> \<forall>b \<in> set pre. bit b 7
     \<Longrightarrow> \<not> bit fin 7
     \<Longrightarrow> read_variable_number_loop s buf i
         = (BLASTMIDI_OK, vlq_accumulate buf (pre @ [fin]), advance s (length pre + 1))"
proof (induction pre arbitrary: s buf i)
  case Nil
  then show ?case
    by (simp add: read_variable_number_loop.simps [of s] read_byte_upcoming extract_top_bit
          vlq_accumulate_def Let_def)
next
  case (Cons b pre)
  from Cons.prems have up: "upcoming (advance s (Suc 0)) = pre @ fin # rest"
    by (simp add: upcoming_advance_1)
  have "read_variable_number_loop (advance s (Suc 0)) (push_bit 7 buf OR ucast (b AND 0x7F)) (Suc i)
      = (BLASTMIDI_OK, vlq_accumulate (push_bit 7 buf OR ucast (b AND 0x7F)) (pre @ [fin]),
         advance (advance s (Suc 0)) (length pre + 1))"
    by (rule Cons.IH [OF up]) (use Cons.prems in auto)
  with Cons.prems show ?case
    by (simp add: read_variable_number_loop.simps [of s] read_byte_upcoming extract_top_bit
          vlq_accumulate_def advance_advance Let_def)
qed

lemma read_variable_number_loop_fourth:
  "upcoming s = pre @ fin # rest \<Longrightarrow> i + length pre = 3 \<Longrightarrow> \<forall>b \<in> set pre. bit b 7
     \<Longrightarrow> bit fin 7
     \<Longrightarrow> read_variable_number_loop s buf i
         = (BLASTMIDI_INVALIDCHUNK, vlq_accumulate buf pre, advance s (length pre + 1))"
proof (induction pre arbitrary: s buf i)
  case Nil
  then show ?case
    by (simp add: read_variable_number_loop.simps [of s] read_byte_upcoming extract_top_bit
          vlq_accumulate_def Let_def)
next
  case (Cons b pre)
  from Cons.prems have up: "upcoming (advance s (Suc 0)) = pre @ fin # rest"
    by (simp add: upcoming_advance_1)
  have "read_variable_number_loop (advance s (Suc 0)) (push_bit 7 buf OR ucast (b AND 0x7F)) (Suc i)
      = (BLASTMIDI_INVALIDCHUNK, vlq_accumulate (push_bit 7 buf OR ucast (b AND 0x7F)) pre,
         advance (advance s (Suc 0)) (length pre + 1))"
    by (rule Cons.IH [OF up]) (use Cons.prems in auto)
  with Cons.prems show ?case
    by (simp add: read_variable_number_loop.simps [of s] read_byte_upcoming extract_top_bit
          vlq_accumulate_def advance_advance Let_def)
qed


definition stream_position :: "blastmidi \<Rightarrow> nat" where
  "stream_position s = (case data_callback s of None \<Rightarrow> 0 | Some st \<Rightarrow> position st)"

text \<open>
  A zeroed structure on a little-endian host with an empty heap, the instance that
  \<^verbatim>\<open>blastmidi_initialize\<close> and \<^verbatim>\<open>blastmidi_set_data_callback\<close> make of it for a file
  with the given bytes.
\<close>

definition blank_instance :: blastmidi where
  "blank_instance =
     \<lparr>data_callback = None, endian_flag = 0, malloc_plan = [], next_addr = 0, events = [],
      blocks = [], arrays = [], host_little_endian = True, undefined_behaviour = False,
      track_count = 0, file_type = 0, time_type = 0, ticks_per_beat = 0, SMPTE_frames = 0,
      ticks_per_frame = 0, valid = 0, tracks = None, track_ends = None, cursor = 0,
      running_status = 0, sysex_continuation = 0\<rparr>"

definition instance_on :: "u8 list \<Rightarrow> blastmidi" where
  "instance_on bs =
     blastmidi_set_data_callback (snd (blastmidi_initialize blank_instance None None))
       (Some (Stream bs 0))"

lemma read_byte_position:
  "read_byte s = (r, c, s1) \<Longrightarrow> stream_position s1 \<le> stream_position s + 1"
  by (auto simp: read_byte_def read_bytes_def stream_callback_def stream_position_def
           split: option.splits if_splits prod.splits)

lemma read_variable_number_loop_position:
  "read_variable_number_loop s buf i = (r, v, s') \<Longrightarrow> i \<le> 4
     \<Longrightarrow> stream_position s' \<le> stream_position s + (4 - i)"
proof (induction s buf i rule: read_variable_number_loop.induct)
  case (1 s buffer i)
  obtain r1 c s1 where rb: "read_byte s = (r1, c, s1)" by (cases "read_byte s") auto
  note pos = read_byte_position [OF rb]
  show ?case
  proof (cases "i < 4 \<and> r1 = BLASTMIDI_OK \<and> \<not> (extract_bits_8 c 1 1 = 1 \<and> i = 3)
                 \<and> extract_bits_8 c 1 1 \<noteq> 0")
    case False
    with "1.prems" rb pos show ?thesis
      by (auto simp: read_variable_number_loop.simps [of s] Let_def split: if_splits)
  next
    case True
    with "1.prems" rb
    have rec: "read_variable_number_loop s1 (push_bit 7 buffer OR ucast (c AND 0x7f)) (Suc i)
                 = (r, v, s')"
      by (simp add: read_variable_number_loop.simps [of s] Let_def split: if_splits)
    have "stream_position s' \<le> stream_position s1 + (4 - Suc i)"
      by (rule "1.IH" [OF _ rb [symmetric] refl _ refl _ refl _ rec]) (use True in auto)
    with pos True show ?thesis by simp
  qed
qed

subsection \<open>The variable-length quantity decoder\<close>

text \<open>
  Claim C6. For every byte sequence, \<^verbatim>\<open>read_variable_number\<close> accumulates
  \<^verbatim>\<open>(acc << 7) | (byte & 0x7F)\<close> over successive bytes; it stops and returns
  \<^verbatim>\<open>BLASTMIDI_OK\<close> with the accumulated value at the first byte whose top bit is 0; it
  fails with \<^verbatim>\<open>BLASTMIDI_INVALIDCHUNK\<close> when the fourth byte read still has its top bit
  set; and it never consumes more than 4 bytes of the stream.
\<close>

theorem read_variable_number_decodes:
  "(upcoming s = pre @ fin # rest \<and> length pre < 4 \<and> (\<forall>b \<in> set pre. bit b 7) \<and> \<not> bit fin 7
      \<longrightarrow> read_variable_number s
            = (BLASTMIDI_OK, vlq_accumulate 0 (pre @ [fin]), advance s (length pre + 1)))
   \<and> (upcoming s = pre @ fin # rest \<and> length pre = 3 \<and> (\<forall>b \<in> set pre. bit b 7) \<and> bit fin 7
      \<longrightarrow> read_variable_number s = (BLASTMIDI_INVALIDCHUNK, vlq_accumulate 0 pre, advance s 4))
   \<and> stream_position (snd (snd (read_variable_number s))) \<le> stream_position s + 4"
proof (intro conjI impI)
  assume "upcoming s = pre @ fin # rest \<and> length pre < 4 \<and> (\<forall>b \<in> set pre. bit b 7) \<and> \<not> bit fin 7"
  then show "read_variable_number s
            = (BLASTMIDI_OK, vlq_accumulate 0 (pre @ [fin]), advance s (length pre + 1))"
    unfolding read_variable_number_def by (intro read_variable_number_loop_ok) auto
next
  assume "upcoming s = pre @ fin # rest \<and> length pre = 3 \<and> (\<forall>b \<in> set pre. bit b 7) \<and> bit fin 7"
  then show "read_variable_number s = (BLASTMIDI_INVALIDCHUNK, vlq_accumulate 0 pre, advance s 4)"
    unfolding read_variable_number_def
    using read_variable_number_loop_fourth [of s pre fin rest 0 0] by simp
next
  obtain r v s' where rv: "read_variable_number s = (r, v, s')"
    by (cases "read_variable_number s") auto
  then show "stream_position (snd (snd (read_variable_number s))) \<le> stream_position s + 4"
    using read_variable_number_loop_position [of s 0 0 r v s']
    by (simp add: read_variable_number_def)
qed

theorem read_variable_number_decodes_witness:
  "read_variable_number (instance_on [0x81, 0x00])
     = (BLASTMIDI_OK, 128, advance (instance_on [0x81, 0x00]) 2)
   \<and> read_variable_number (instance_on [0xFF, 0xFF, 0xFF, 0xFF, 0x7F])
     = (BLASTMIDI_INVALIDCHUNK, 0x1FFFFF, advance (instance_on [0xFF, 0xFF, 0xFF, 0xFF, 0x7F]) 4)"
proof -
  have "read_variable_number (instance_on [0x81, 0x00])
          = (BLASTMIDI_OK, vlq_accumulate 0 ([0x81] @ [0x00]),
             advance (instance_on [0x81, 0x00]) (length [0x81 :: u8] + 1))"
    using read_variable_number_decodes [of "instance_on [0x81, 0x00]" "[0x81]" "0x00" "[]"]
    by (simp add: instance_on_def blastmidi_set_data_callback_def upcoming_def)
  moreover have "vlq_accumulate 0 ([0x81] @ [0x00]) = 128"
    by (simp add: vlq_accumulate_def)
  moreover have "length [0x81 :: u8] + 1 = 2"
    by simp
  moreover have "read_variable_number (instance_on [0xFF, 0xFF, 0xFF, 0xFF, 0x7F])
          = (BLASTMIDI_INVALIDCHUNK, vlq_accumulate 0 [0xFF, 0xFF, 0xFF],
             advance (instance_on [0xFF, 0xFF, 0xFF, 0xFF, 0x7F]) 4)"
    using read_variable_number_decodes [of "instance_on [0xFF, 0xFF, 0xFF, 0xFF, 0x7F]"
                                           "[0xFF, 0xFF, 0xFF]" "0xFF" "[0x7F]"]
    by (simp add: instance_on_def blastmidi_set_data_callback_def upcoming_def)
  moreover have "vlq_accumulate 0 [0xFF, 0xFF, 0xFF] = 0x1FFFFF"
    by (simp add: vlq_accumulate_def)
  ultimately show ?thesis by (simp add: numeral_2_eq_2)
qed

lemma sint_track_minus_one: "sint (t :: u16) = - 1 \<longleftrightarrow> t = - 1"
proof
  assume "sint t = - 1"
  then have "(of_int (sint t) :: u16) = of_int (- 1)" by (rule arg_cong)
  then show "t = - 1" by simp
next
  assume "t = - 1"
  then show "sint t = - 1" by simp
qed

lemma sint_differs_uint: "(a :: u16) \<noteq> b \<Longrightarrow> sint a \<noteq> - 1 \<Longrightarrow> sint a \<noteq> uint b"
proof
  assume ne: "a \<noteq> b" and eq: "sint a = uint b"
  have "word_of_int (sint a) = a" by simp
  moreover have "word_of_int (uint b) = b" by simp
  ultimately show False using ne eq by metis
qed

text \<open>
  A format 1 file with two empty tracks, and the document that \<^verbatim>\<open>blastmidi_read\<close> makes
  of it.
\<close>

definition two_track_file :: "u8 list" where
  "two_track_file =
     MThd @ [0, 0, 0, 6, 0, 1, 0, 2, 0, 96]
     @ MTrk @ [0, 0, 0, 4, 0x00, 0xFF, 0x2F, 0x00]
     @ MTrk @ [0, 0, 0, 4, 0x00, 0xFF, 0x2F, 0x00]"

definition document :: blastmidi where
  "document =
     \<lparr>data_callback = Some (Stream two_track_file 38), endian_flag = 1, malloc_plan = [],
      next_addr = 2, events = [], blocks = [],
      arrays = [(0, [None, None]), (1, [None, None])], host_little_endian = True,
      undefined_behaviour = False, track_count = 2, file_type = 1, time_type = 0,
      ticks_per_beat = 96, SMPTE_frames = 0, ticks_per_frame = 0, valid = 1, tracks = Some 0,
      track_ends = Some 1, cursor = 38, running_status = 0, sysex_continuation = 0\<rparr>"

lemma document_read: "blastmidi_read (instance_on two_track_file) = (BLASTMIDI_OK, document)"
  by code_simp

subsection \<open>Helper facts on words and reads\<close>

lemma fields_advance [simp]:
  "host_little_endian (advance s n) = host_little_endian s"
  "endian_flag (advance s n) = endian_flag s"
  by (simp_all add: advance_def split: option.splits)

lemma read_bytes_n:
  "upcoming s = bs @ rest \<Longrightarrow> length bs = n \<Longrightarrow> 0 < n
     \<Longrightarrow> read_bytes s n = (BLASTMIDI_OK, bs, advance s n)"
  using read_bytes_upcoming [of s bs rest] by auto

lemma upcoming_advance_n:
  "upcoming s = bs @ rest \<Longrightarrow> length bs = n \<Longrightarrow> 0 < n \<Longrightarrow> upcoming (advance s n) = rest"
  using upcoming_advance [of s bs rest] by auto

subsection \<open>Track chunks of length 0\<close>

text \<open>
  Claim C10. For every track chunk whose magic is \<^verbatim>\<open>"MTrk"\<close> and whose declared 32-bit
  length is 0, \<^verbatim>\<open>read_track\<close> returns \<^verbatim>\<open>BLASTMIDI_INVALIDCHUNK\<close> before it enters the
  event loop: the call has read the 8 bytes of the chunk header and nothing else, and
  has changed nothing else.
\<close>

theorem read_track_rejects_zero_length:
  "upcoming s = MTrk @ [0, 0, 0, 0] @ rest
     \<Longrightarrow> read_track s track_id = (BLASTMIDI_INVALIDCHUNK, advance s 8)"
proof -
  assume up: "upcoming s = MTrk @ [0, 0, 0, 0] @ rest"
  have l: "length MTrk = 4" by (simp add: MTrk_def)
  have r1: "read_bytes s 4 = (BLASTMIDI_OK, MTrk, advance s 4)"
    by (rule read_bytes_n [OF up l]) simp
  have up2: "upcoming (advance s 4) = [0, 0, 0, 0] @ rest"
    by (rule upcoming_advance_n [OF up l]) simp
  have r2: "read_bytes (advance s 4) 4 = (BLASTMIDI_OK, [0, 0, 0, 0], advance (advance s 4) 4)"
    by (rule read_bytes_n [OF up2]) simp_all
  have z: "convert_endian_32 0 f = 0" for f
    by (simp add: convert_endian_32_def swap_32_def)
  have r3: "read_32_bit (advance s 4) = (BLASTMIDI_OK, 0, advance s 8)"
    by (simp add: read_32_bit_def r2 z advance_advance)
  show ?thesis
    by (simp add: read_track_def r1 r3 c_string_def MTrk_def)
qed

theorem read_track_rejects_zero_length_witness:
  "read_track (instance_on (MTrk @ [0, 0, 0, 0, 0x00, 0xFF, 0x2F, 0x00])) 0
     = (BLASTMIDI_INVALIDCHUNK, advance (instance_on (MTrk @ [0, 0, 0, 0, 0x00, 0xFF, 0x2F, 0x00])) 8)"
  using read_track_rejects_zero_length
          [of "instance_on (MTrk @ [0, 0, 0, 0, 0x00, 0xFF, 0x2F, 0x00])" "[0x00, 0xFF, 0x2F, 0x00]" 0]
  by (simp add: instance_on_def blastmidi_set_data_callback_def upcoming_def)

text \<open>
  Two channel events made by the factory on that document (at the addresses 2 and 3),
  the document after the first is appended to track 0, and after the second is then
  put at the beginning of track 0.
\<close>

definition with_two_events :: blastmidi where
  "with_two_events =
     (case blastmidi_event_create_channel_event document 0 BLASTMIDI_CHANNEL_NOTE_ON 60 100 of
        (r1, e1, s1) \<Rightarrow>
          (case blastmidi_event_create_channel_event s1 0 BLASTMIDI_CHANNEL_NOTE_OFF 60 0 of
             (r2, e2, s2) \<Rightarrow> s2))"

definition first_attached :: blastmidi where
  "first_attached =
     (case blastmidi_add_event_to_end_of_track (Some with_two_events) 0 (Some 2) 0 of
        (r, Some s) \<Rightarrow> s
      | (r, None) \<Rightarrow> with_two_events)"

definition both_attached :: blastmidi where
  "both_attached =
     (case blastmidi_add_event_to_beginning_of_track (Some first_attached) 0 (Some 3) 0 of
        (r, Some s) \<Rightarrow> s
      | (r, None) \<Rightarrow> first_attached)"

text \<open>
  A client's walk over a track with the navigation functions: from the first event by
  \<^verbatim>\<open>blastmidi_get_next_event_on_track\<close>, and from the last event by
  \<^verbatim>\<open>blastmidi_get_previous_event_on_track\<close>, until the null pointer; the first argument
  bounds the number of steps.
\<close>

fun walk_next :: "nat \<Rightarrow> blastmidi \<Rightarrow> addr option \<Rightarrow> addr list" where
  "walk_next 0 s p = []"
| "walk_next (Suc k) s None = []"
| "walk_next (Suc k) s (Some a) =
     a # walk_next k s (case blastmidi_get_next_event_on_track (Some s) (Some (Some a)) of
                          (r, Some q) \<Rightarrow> q | (r, None) \<Rightarrow> None)"

fun walk_previous :: "nat \<Rightarrow> blastmidi \<Rightarrow> addr option \<Rightarrow> addr list" where
  "walk_previous 0 s p = []"
| "walk_previous (Suc k) s None = []"
| "walk_previous (Suc k) s (Some a) =
     a # walk_previous k s (case blastmidi_get_previous_event_on_track (Some s) (Some (Some a)) of
                              (r, Some q) \<Rightarrow> q | (r, None) \<Rightarrow> None)"

definition forward_traversal :: "blastmidi \<Rightarrow> u16 \<Rightarrow> addr list" where
  "forward_traversal s track_id =
     walk_next (Suc (length (events s))) s
       (case blastmidi_get_first_event_on_track (Some s) track_id (Some None) of
          (r, Some q) \<Rightarrow> q | (r, None) \<Rightarrow> None)"

definition backward_traversal :: "blastmidi \<Rightarrow> u16 \<Rightarrow> addr list" where
  "backward_traversal s track_id =
     walk_previous (Suc (length (events s))) s
       (case blastmidi_get_last_event_on_track (Some s) track_id (Some None) of
          (r, Some q) \<Rightarrow> q | (r, None) \<Rightarrow> None)"

subsection \<open>Misuse of the mutation functions\<close>

text \<open>
  Claim C9. An attach call (\<^verbatim>\<open>blastmidi_add_event\<close> and its two convenience forms) on an
  event whose \<^verbatim>\<open>track\<close> field shows that it is attached returns
  \<^verbatim>\<open>BLASTMIDI_ALREADYADDED\<close>; \<^verbatim>\<open>blastmidi_remove_event_from_track\<close> returns
  \<^verbatim>\<open>BLASTMIDI_NOTADDED\<close> on an event that was never attached and
  \<^verbatim>\<open>BLASTMIDI_NOTPARTOFTRACK\<close> on an event attached to another track; a null document, a
  null event and a track index out of range give \<^verbatim>\<open>BLASTMIDI_INVALIDPARAM\<close>; and every
  call that returns an error leaves the document, with all its track lists, as it was.
\<close>

theorem mutation_misuse_is_rejected:
  "(map_of (events s) a = Some e \<and> track e \<noteq> - 1 \<longrightarrow>
      blastmidi_add_event (Some s) track_id (Some a) delta_time add_after
        = (BLASTMIDI_ALREADYADDED, Some s)
      \<and> blastmidi_add_event_to_beginning_of_track (Some s) track_id (Some a) delta_time
        = (BLASTMIDI_ALREADYADDED, Some s)
      \<and> blastmidi_add_event_to_end_of_track (Some s) track_id (Some a) delta_time
        = (BLASTMIDI_ALREADYADDED, Some s))
   \<and> (map_of (events s) n = Some ne \<and> track ne = - 1 \<and> unat in_range < unat (track_count s) \<longrightarrow>
      blastmidi_remove_event_from_track (Some s) in_range (Some n)
        = (BLASTMIDI_NOTADDED, Some s))
   \<and> (map_of (events s) a = Some e \<and> track e \<noteq> - 1 \<and> track e \<noteq> other
        \<and> unat other < unat (track_count s) \<longrightarrow>
      blastmidi_remove_event_from_track (Some s) other (Some a)
        = (BLASTMIDI_NOTPARTOFTRACK, Some s))
   \<and> blastmidi_add_event None track_id ev delta_time add_after = (BLASTMIDI_INVALIDPARAM, None)
   \<and> blastmidi_add_event_to_beginning_of_track None track_id ev delta_time
        = (BLASTMIDI_INVALIDPARAM, None)
   \<and> blastmidi_add_event_to_end_of_track None track_id ev delta_time
        = (BLASTMIDI_INVALIDPARAM, None)
   \<and> blastmidi_remove_event_from_track None track_id ev = (BLASTMIDI_INVALIDPARAM, None)
   \<and> blastmidi_add_event (Some s) track_id None delta_time add_after
        = (BLASTMIDI_INVALIDPARAM, Some s)
   \<and> blastmidi_add_event_to_beginning_of_track (Some s) track_id None delta_time
        = (BLASTMIDI_INVALIDPARAM, Some s)
   \<and> blastmidi_add_event_to_end_of_track (Some s) track_id None delta_time
        = (BLASTMIDI_INVALIDPARAM, Some s)
   \<and> blastmidi_remove_event_from_track (Some s) track_id None
        = (BLASTMIDI_INVALIDPARAM, Some s)
   \<and> (map_of (events s) n = Some ne \<and> track ne = - 1 \<and> unat (track_count s) \<le> unat beyond \<longrightarrow>
      blastmidi_add_event (Some s) beyond (Some n) delta_time add_after
        = (BLASTMIDI_INVALIDPARAM, Some s)
      \<and> blastmidi_add_event_to_beginning_of_track (Some s) beyond (Some n) delta_time
        = (BLASTMIDI_INVALIDPARAM, Some s)
      \<and> blastmidi_add_event_to_end_of_track (Some s) beyond (Some n) delta_time
        = (BLASTMIDI_INVALIDPARAM, Some s))
   \<and> (unat (track_count s) \<le> unat beyond \<longrightarrow>
      blastmidi_remove_event_from_track (Some s) beyond ev = (BLASTMIDI_INVALIDPARAM, Some s))
   \<and> (fst (blastmidi_add_event instance track_id ev delta_time add_after) \<noteq> BLASTMIDI_OK \<longrightarrow>
      snd (blastmidi_add_event instance track_id ev delta_time add_after) = instance)
   \<and> (fst (blastmidi_add_event_to_beginning_of_track instance track_id ev delta_time)
        \<noteq> BLASTMIDI_OK \<longrightarrow>
      snd (blastmidi_add_event_to_beginning_of_track instance track_id ev delta_time) = instance)
   \<and> (fst (blastmidi_add_event_to_end_of_track instance track_id ev delta_time)
        \<noteq> BLASTMIDI_OK \<longrightarrow>
      snd (blastmidi_add_event_to_end_of_track instance track_id ev delta_time) = instance)
   \<and> (fst (blastmidi_remove_event_from_track instance track_id ev) \<noteq> BLASTMIDI_OK \<longrightarrow>
      snd (blastmidi_remove_event_from_track instance track_id ev) = instance)"
proof -
  have add_unchanged:
    "fst (blastmidi_add_event i t v d aa) \<noteq> BLASTMIDI_OK
       \<Longrightarrow> snd (blastmidi_add_event i t v d aa) = i" for i t v d aa
    by (auto simp: blastmidi_add_event_def Let_def split: option.splits if_splits)
  have beginning_unchanged:
    "fst (blastmidi_add_event_to_beginning_of_track i t v d) \<noteq> BLASTMIDI_OK
       \<Longrightarrow> snd (blastmidi_add_event_to_beginning_of_track i t v d) = i" for i t v d
    using add_unchanged [of i t v d None]
    by (auto simp: blastmidi_add_event_to_beginning_of_track_def split: option.splits if_splits)
  have end_unchanged:
    "fst (blastmidi_add_event_to_end_of_track i t v d) \<noteq> BLASTMIDI_OK
       \<Longrightarrow> snd (blastmidi_add_event_to_end_of_track i t v d) = i" for i t v d
    using add_unchanged [of i t v d]
    by (auto simp: blastmidi_add_event_to_end_of_track_def split: option.splits if_splits)
  have remove_unchanged:
    "fst (blastmidi_remove_event_from_track i t v) \<noteq> BLASTMIDI_OK
       \<Longrightarrow> snd (blastmidi_remove_event_from_track i t v) = i" for i t v
    by (auto simp: blastmidi_remove_event_from_track_def Let_def split: option.splits if_splits)
  have other_track: "sint (track e) \<noteq> uint other" if "track e \<noteq> - 1" "track e \<noteq> other"
    using that sint_differs_uint [of "track e" other] by (simp add: sint_track_minus_one)
  show ?thesis
    using add_unchanged beginning_unchanged end_unchanged remove_unchanged other_track
    by (auto simp: blastmidi_add_event_def blastmidi_add_event_to_beginning_of_track_def
          blastmidi_add_event_to_end_of_track_def blastmidi_remove_event_from_track_def
          sint_track_minus_one split: option.splits)
qed

theorem mutation_misuse_is_rejected_witness:
  "blastmidi_add_event (Some first_attached) 0 (Some 2) 0 None
     = (BLASTMIDI_ALREADYADDED, Some first_attached)
   \<and> blastmidi_add_event_to_beginning_of_track (Some first_attached) 0 (Some 2) 0
     = (BLASTMIDI_ALREADYADDED, Some first_attached)
   \<and> blastmidi_add_event_to_end_of_track (Some first_attached) 0 (Some 2) 0
     = (BLASTMIDI_ALREADYADDED, Some first_attached)
   \<and> blastmidi_remove_event_from_track (Some first_attached) 0 (Some 3)
     = (BLASTMIDI_NOTADDED, Some first_attached)
   \<and> blastmidi_remove_event_from_track (Some first_attached) 1 (Some 2)
     = (BLASTMIDI_NOTPARTOFTRACK, Some first_attached)
   \<and> blastmidi_add_event (Some first_attached) 2 (Some 3) 0 None
     = (BLASTMIDI_INVALIDPARAM, Some first_attached)
   \<and> blastmidi_remove_event_from_track (Some first_attached) 2 (Some 2)
     = (BLASTMIDI_INVALIDPARAM, Some first_attached)"
proof -
  have attached:
    "map_of (events first_attached) 2 = Some (the (map_of (events first_attached) 2))
     \<and> track (the (map_of (events first_attached) 2)) \<noteq> - 1
     \<and> track (the (map_of (events first_attached) 2)) \<noteq> 1"
    by code_simp
  have unattached:
    "map_of (events first_attached) 3 = Some (the (map_of (events first_attached) 3))
     \<and> track (the (map_of (events first_attached) 3)) = - 1"
    by code_simp
  have range:
    "unat (0 :: u16) < unat (track_count first_attached)
     \<and> unat (1 :: u16) < unat (track_count first_attached)
     \<and> unat (track_count first_attached) \<le> unat (2 :: u16)"
    by code_simp
  show ?thesis
    using mutation_misuse_is_rejected
            [of first_attached 2 "the (map_of (events first_attached) 2)" 0 0 None
                3 "the (map_of (events first_attached) 3)" 0 1 "Some 2" 2 "Some first_attached"]
          attached unattached range
    by simp
qed

subsection \<open>Head, tail and the two directions of traversal\<close>

text \<open>
  Claim C1. After any sequence of attach and detach operations on a track, the head
  slot holds the first attached event and the tail slot the last, and the walk from
  the head by \<^verbatim>\<open>next\<close> visits the events that the walk from the tail by \<^verbatim>\<open>previous\<close>
  visits, in reverse order. The code does not keep this: \<^verbatim>\<open>blastmidi_add_event\<close> never
  writes the \<^verbatim>\<open>previous\<close> field of the event that follows the new one. Appending event 2
  to the empty track 0 and then putting event 3 at the beginning leaves the forward
  walk at \<open>[3, 2]\<close> and the backward walk at \<open>[2]\<close>.
\<close>

theorem add_to_beginning_breaks_backward_traversal:
  "blastmidi_add_event_to_end_of_track (Some with_two_events) 0 (Some 2) 0
     = (BLASTMIDI_OK, Some first_attached)
   \<and> blastmidi_add_event_to_beginning_of_track (Some first_attached) 0 (Some 3) 0
     = (BLASTMIDI_OK, Some both_attached)
   \<and> forward_traversal both_attached 0 = [3, 2]
   \<and> backward_traversal both_attached 0 = [2]
   \<and> forward_traversal both_attached 0 \<noteq> rev (backward_traversal both_attached 0)"
  by code_simp

subsection \<open>Wiping a track\<close>

text \<open>
  Claim C5. \<^verbatim>\<open>blastmidi_whipe_track\<close> releases every event of the track and clears the
  head slot and the tail slot of the track. The code releases the events and leaves
  both slots as they were: after wiping track 0, which held event 2 alone, event 2 is
  no longer live and both slots still hold its address.
\<close>

theorem whipe_track_leaves_head_and_tail:
  "forward_traversal first_attached 0 = [2]
   \<and> (case blastmidi_whipe_track (Some first_attached) 0 of
        None \<Rightarrow> False
      | Some s \<Rightarrow>
          map_of (events s) 2 = None
          \<and> array_get s (tracks s) 0 = Some 2 \<and> array_get s (track_ends s) 0 = Some 2
          \<and> \<not> undefined_behaviour s)"
  by code_simp

subsection \<open>Pitch bend\<close>

text \<open>
  Claim C3. The pitch-bend case of \<^verbatim>\<open>blastmidi_event_create_channel_event\<close> packs its two
  7-bit data bytes into a 14-bit value stored as a native 16-bit integer, the first
  data byte in the low 7 bits and the second in the high 7 bits, so that 8192 is the
  centre. The code shifts the first byte up and puts the second byte below it: the
  data bytes \<open>0x00 0x40\<close> of a centred wheel give 64, not 8192, and \<open>0x7F 0x00\<close> give
  \<open>0x3F80\<close>, not 127.
\<close>

theorem pitch_bend_first_byte_is_high:
  "(case blastmidi_event_create_channel_event document 0 BLASTMIDI_CHANNEL_PITCH_BEND 0x00 0x40 of
      (r, ev, s) \<Rightarrow>
        r = BLASTMIDI_OK \<and> ev = Some 2
        \<and> native_word_16 (host_little_endian s) (payload s 2) = 64)
   \<and> (case blastmidi_event_create_channel_event document 0 BLASTMIDI_CHANNEL_PITCH_BEND 0x7F 0x00 of
      (r, ev, s) \<Rightarrow>
        r = BLASTMIDI_OK \<and> ev = Some 2
        \<and> native_word_16 (host_little_endian s) (payload s 2) = 0x3F80)"
  by code_simp

subsection \<open>Inline and heap payloads\<close>

text \<open>A file whose track holds the system-exclusive event \<open>F0 01 F7\<close>, with no payload.\<close>

definition sysex_file :: "u8 list" where
  "sysex_file =
     MThd @ [0, 0, 0, 6, 0, 0, 0, 1, 0, 96]
     @ MTrk @ [0, 0, 0, 8, 0x00, 0xF0, 0x01, 0xF7, 0x00, 0xFF, 0x2F, 0x00]"

text \<open>
  Claim C4. An event with a payload of at most 2 bytes keeps it in the inline
  \<^verbatim>\<open>small_pool\<close>, with no heap allocation for the payload; a larger payload has a heap
  block of its own, and \<^verbatim>\<open>blastmidi_event_free\<close> releases the block in exactly that case.
  The code breaks this for a payload of 0 bytes: \<^verbatim>\<open>allocate_event\<close> asks
  \<^verbatim>\<open>malloc_function\<close> for a block of 0 bytes and stores its address in \<^verbatim>\<open>data\<close>, and
  \<^verbatim>\<open>blastmidi_event_free\<close>, which tests \<^verbatim>\<open>data_size > 2\<close>, never releases that block. The
  decoder gets there on a file with the event \<open>F0 01 F7\<close>: after \<^verbatim>\<open>blastmidi_read\<close> and
  \<^verbatim>\<open>blastmidi_free\<close> the events and the arrays are released and the block is still
  allocated.
\<close>

theorem allocate_event_empty_payload_on_heap:
  "(case allocate_event document BLASTMIDI_SYSEX_EVENT 0 None 0 of
      (r, ev, s) \<Rightarrow>
        r = BLASTMIDI_OK \<and> ev = Some 2
        \<and> map_option data_size (map_of (events s) 2) = Some 0
        \<and> map_option data (map_of (events s) 2) = Some (Data_block 3)
        \<and> blocks document = [] \<and> blocks s = [(3, [])]
        \<and> blocks (blastmidi_event_free s 2) = [(3, [])])
   \<and> (case blastmidi_read (instance_on sysex_file) of
      (r, s) \<Rightarrow>
        r = BLASTMIDI_OK
        \<and> map_option data_size (map_of (events s) 2) = Some 0
        \<and> map_option data (map_of (events s) 2) = Some (Data_block 3)
        \<and> blocks s = [(3, [])]
        \<and> events (blastmidi_free s) = [] \<and> arrays (blastmidi_free s) = []
        \<and> blocks (blastmidi_free s) = [(3, [])]
        \<and> \<not> undefined_behaviour (blastmidi_free s))"
  by code_simp

subsection \<open>A failed read leaves nothing behind\<close>

text \<open>The fields of a document that has been reset.\<close>

definition fully_reset :: "blastmidi \<Rightarrow> bool" where
  "fully_reset s \<longleftrightarrow>
     tracks s = None \<and> track_ends s = None \<and> track_count s = 0 \<and> file_type s = 0
     \<and> time_type s = 0 \<and> ticks_per_beat s = 0 \<and> SMPTE_frames s = 0 \<and> ticks_per_frame s = 0
     \<and> valid s = 0"

lemma array_frame_upd [simp]:
  "array_frame (s\<lparr>data_callback := dc\<rparr>) = array_frame s"
  "array_frame (s\<lparr>cursor := c\<rparr>) = array_frame s"
  "array_frame (s\<lparr>running_status := rs\<rparr>) = array_frame s"
  "array_frame (s\<lparr>sysex_continuation := sc\<rparr>) = array_frame s"
  "array_frame (s\<lparr>undefined_behaviour := ub\<rparr>) = array_frame s"
  "array_frame (s\<lparr>file_type := ft\<rparr>) = array_frame s"
  "array_frame (s\<lparr>track_count := tc\<rparr>) = array_frame s"
  "array_frame (s\<lparr>time_type := tt\<rparr>) = array_frame s"
  "array_frame (s\<lparr>ticks_per_beat := tb\<rparr>) = array_frame s"
  "array_frame (s\<lparr>SMPTE_frames := sf\<rparr>) = array_frame s"
  "array_frame (s\<lparr>ticks_per_frame := tf\<rparr>) = array_frame s"
  by (simp_all add: array_frame_def)

lemma array_frame_heap [simp]:
  "array_frame (write_data s a buf n) = array_frame s"
  "array_frame (update_event s a f) = array_frame s"
  "array_frame (blastmidi_event_free s a) = array_frame s"
  by (rule io_array_frame, simp)+

lemma array_frame_read_bytes:
  "read_bytes s n = (r, buf, s') \<Longrightarrow> array_frame s' = array_frame s"
  by (auto simp: read_bytes_def split: option.splits prod.splits if_splits)

lemma array_frame_skip_ahead:
  "skip_ahead s n = (r, s') \<Longrightarrow> array_frame s' = array_frame s"
  by (auto simp: skip_ahead_def split: option.splits prod.splits if_splits)

lemma array_frame_skip_backwards [simp]:
  "array_frame (snd (skip_backwards s n)) = array_frame s"
  by (auto simp: skip_backwards_def split: option.splits prod.splits if_splits)

lemma array_frame_read_byte:
  "read_byte s = (r, b, s') \<Longrightarrow> array_frame s' = array_frame s"
  by (auto simp: read_byte_def split: prod.splits dest: array_frame_read_bytes)

lemma array_frame_read_16_bit:
  "read_16_bit s = (r, b, s') \<Longrightarrow> array_frame s' = array_frame s"
  by (auto simp: read_16_bit_def split: prod.splits if_splits dest: array_frame_read_bytes)

lemma array_frame_read_32_bit:
  "read_32_bit s = (r, b, s') \<Longrightarrow> array_frame s' = array_frame s"
  by (auto simp: read_32_bit_def split: prod.splits if_splits dest: array_frame_read_bytes)

lemma array_frame_read_24_bit:
  "read_24_bit s b0 = (r, b, s') \<Longrightarrow> array_frame s' = array_frame s"
  by (auto simp: read_24_bit_def Let_def split: prod.splits if_splits dest: array_frame_read_bytes)

lemma array_frame_read_variable_number_loop:
  "read_variable_number_loop s buf i = (r, v, s') \<Longrightarrow> array_frame s' = array_frame s"
proof (induction s buf i rule: read_variable_number_loop.induct)
  case (1 s buffer i)
  obtain r1 c s1 where rb: "read_byte s = (r1, c, s1)" by (cases "read_byte s") auto
  note fr = array_frame_read_byte [OF rb]
  show ?case
  proof (cases "i < 4 \<and> r1 = BLASTMIDI_OK \<and> \<not> (extract_bits_8 c 1 1 = 1 \<and> i = 3)
                 \<and> extract_bits_8 c 1 1 \<noteq> 0")
    case False
    with "1.prems" rb fr show ?thesis
      by (auto simp: read_variable_number_loop.simps [of s] Let_def split: if_splits)
  next
    case True
    with "1.prems" rb
    have rec: "read_variable_number_loop s1 (push_bit 7 buffer OR ucast (c AND 0x7f)) (Suc i)
                 = (r, v, s')"
      by (simp add: read_variable_number_loop.simps [of s] Let_def split: if_splits)
    have "array_frame s' = array_frame s1"
      by (rule "1.IH" [OF _ rb [symmetric] refl _ refl _ refl _ rec]) (use True in auto)
    with fr show ?thesis by simp
  qed
qed

lemma array_frame_read_variable_number:
  "read_variable_number s = (r, v, s') \<Longrightarrow> array_frame s' = array_frame s"
  unfolding read_variable_number_def by (rule array_frame_read_variable_number_loop)

lemmas heap_frame =
  io_create_channel_event [THEN io_array_frame]
  io_create_meta_sequence_number_event [THEN io_array_frame]
  io_create_meta_tempo_event [THEN io_array_frame]
  io_create_meta_data_event [THEN io_array_frame]
  io_create_meta_midi_channel_prefix_event [THEN io_array_frame]
  io_create_meta_time_signature_event [THEN io_array_frame]
  io_create_meta_key_signature_event [THEN io_array_frame]
  io_create_sysex_event [THEN io_array_frame]

lemmas stream_frame =
  array_frame_read_bytes array_frame_read_byte array_frame_read_16_bit array_frame_read_24_bit
  array_frame_read_32_bit array_frame_read_variable_number array_frame_skip_ahead

lemma array_frame_read_meta_event:
  "read_meta_event s = (r, eot, ev, s') \<Longrightarrow> array_frame s' = array_frame s"
  unfolding read_meta_event_def
  by (auto split: prod.splits if_splits option.splits dest!: heap_frame stream_frame)

lemma array_frame_read_sysex_event:
  "read_sysex_event s = (r, ev, s') \<Longrightarrow> array_frame s' = array_frame s"
  unfolding read_sysex_event_def
  by (auto split: prod.splits if_splits option.splits dest!: heap_frame stream_frame)

lemma array_frame_read_authorization_sysex_event:
  "read_authorization_sysex_event s = (r, ev, s') \<Longrightarrow> array_frame s' = array_frame s"
  unfolding read_authorization_sysex_event_def
  by (auto split: prod.splits if_splits option.splits dest!: heap_frame stream_frame)

lemma array_frame_read_track_events_dispatch:
  "read_track_events_dispatch s event_type = (r, eot, ev, s') \<Longrightarrow> array_frame s' = array_frame s"
  unfolding read_track_events_dispatch_def Let_def
  by (auto split: prod.splits if_splits
           dest!: heap_frame stream_frame array_frame_read_meta_event
                  array_frame_read_sysex_event array_frame_read_authorization_sysex_event)

lemma array_frame_add_event_to_end:
  assumes "blastmidi_add_event_to_end_of_track (Some s) tid ev dt = (r, inst)"
  shows "array_frame (case inst of None \<Rightarrow> s | Some s' \<Rightarrow> s') = array_frame s"
proof -
  from io_blastmidi_add_event_to_end_of_track [OF assms]
  obtain s' where "inst = Some s'" "io s' = io s" by blast
  then show ?thesis using io_array_frame [of s' s] by simp
qed

lemma array_frame_read_track_events_step:
  "read_track_events_step s track_id = (r, eot, s') \<Longrightarrow> array_frame s' = array_frame s"
  unfolding read_track_events_step_def Let_def
  by (auto split: prod.splits if_splits option.splits
           dest!: stream_frame array_frame_read_track_events_dispatch array_frame_add_event_to_end)

text \<open>
  Parsing does not touch the two array pointers, and allocates and frees no array.
\<close>

lemma array_frame_read_track_events:
  "read_track_events s track_id = (r, s') \<Longrightarrow> array_frame s' = array_frame s"
proof (induction s track_id rule: read_track_events.induct)
  case (1 s track_id)
  obtain r1 eot s1 where st: "read_track_events_step s track_id = (r1, eot, s1)"
    by (cases "read_track_events_step s track_id") auto
  note fr = array_frame_read_track_events_step [OF st]
  show ?case
  proof (cases "r1 = BLASTMIDI_OK \<and> eot = 0")
    case False
    with "1.prems" st fr show ?thesis
      by (auto simp: read_track_events.simps [of s] split: if_splits)
  next
    case True
    with "1.prems" st have "read_track_events s1 track_id = (r, s')"
      by (simp add: read_track_events.simps [of s])
    moreover have "\<not> r1 \<noteq> BLASTMIDI_OK" "\<not> eot \<noteq> 0" using True by simp_all
    ultimately have "array_frame s' = array_frame s1"
      using "1.IH" [OF st [symmetric] refl] by blast
    with fr show ?thesis by simp
  qed
qed

lemma array_frame_read_track:
  "read_track s track_id = (r, s') \<Longrightarrow> array_frame s' = array_frame s"
  unfolding read_track_def
  by (auto split: prod.splits if_splits
           dest!: array_frame_read_bytes array_frame_read_32_bit array_frame_read_track_events)

lemma array_frame_read_header:
  "read_header s = (r, s') \<Longrightarrow> array_frame s' = array_frame s"
  unfolding read_header_def Let_def
  by (auto split: prod.splits if_splits
           dest!: array_frame_read_bytes array_frame_read_32_bit array_frame_read_16_bit)

lemma array_frame_whipe_loop: "array_frame (whipe_loop s current) = array_frame s"
proof (induction s current rule: whipe_loop.induct)
  case (1 s current)
  show ?case
  proof (cases current)
    case None
    then show ?thesis by (simp add: whipe_loop.simps [of s])
  next
    case (Some c)
    show ?thesis
    proof (cases "map_of (events s) c")
      case None
      with Some show ?thesis by (simp add: whipe_loop.simps [of s])
    next
      case (Some e)
      with "1.IH" [OF \<open>current = Some c\<close> Some] \<open>current = Some c\<close>
      show ?thesis by (simp add: whipe_loop.simps [of s])
    qed
  qed
qed

lemma array_frame_reset_loop: "array_frame (reset_loop s i) = array_frame s"
proof (induction s i rule: reset_loop.induct)
  case (1 s i)
  show ?case
  proof (cases "i < unat (track_count s)")
    case False
    then show ?thesis by (simp add: reset_loop.simps [of s])
  next
    case True
    with "1.IH" [OF True] show ?thesis
      by (simp add: reset_loop.simps [of s] blastmidi_whipe_track_def array_frame_whipe_loop
            split: if_splits)
  qed
qed

text \<open>
  The addresses of the pointer arrays that are allocated and not yet passed to
  \<^verbatim>\<open>free_function\<close>.
\<close>

definition array_addresses :: "blastmidi \<Rightarrow> addr set" where
  "array_addresses s = set (map fst (arrays s))"

lemma array_frame_addresses:
  "array_frame s' = array_frame s
     \<Longrightarrow> array_addresses s' = array_addresses s \<and> tracks s' = tracks s
         \<and> track_ends s' = track_ends s"
  by (simp add: array_frame_def array_addresses_def)

text \<open>
  \<^verbatim>\<open>reset\<close> clears every field and passes the two arrays of the instance to
  \<^verbatim>\<open>free_function\<close>.
\<close>

lemma fully_reset_reset: "fully_reset (reset s)"
  by (simp add: fully_reset_def reset_def Let_def free_function_array_def split: option.splits)

lemma keys_delete:
  "fst ` set (AList.delete k al) = fst ` set al - {k}"
  using delete_keys [of k al] by (metis set_map set_removeAll)

lemma arrays_reset:
  "arrays (reset s) =
     (case tracks s of
        None \<Rightarrow> (case track_ends s of None \<Rightarrow> arrays s | Some b \<Rightarrow> AList.delete b (arrays s))
      | Some a \<Rightarrow>
          (case track_ends s of
             None \<Rightarrow> AList.delete a (arrays (reset_loop s 0))
           | Some b \<Rightarrow> AList.delete b (AList.delete a (arrays (reset_loop s 0)))))"
proof -
  have k: "track_ends (reset_loop s 0) = track_ends s"
    using array_frame_reset_loop [of s 0] by (simp add: array_frame_def)
  show ?thesis
    by (simp add: reset_def Let_def free_function_array_def k split: option.splits)
qed

lemma array_addresses_reset:
  "array_addresses (reset s)
     = array_addresses s - set_option (tracks s) - set_option (track_ends s)"
proof -
  have "map fst (arrays (reset_loop s 0)) = map fst (arrays s)"
    using array_frame_reset_loop [of s 0] by (simp add: array_frame_def)
  then have e: "fst ` set (arrays (reset_loop s 0)) = fst ` set (arrays s)"
    by (metis set_map)
  show ?thesis
  proof (cases "tracks s")
    case None
    then show ?thesis
      by (cases "track_ends s") (simp_all add: arrays_reset array_addresses_def keys_delete)
  next
    case (Some a)
    then show ?thesis
      by (cases "track_ends s") (simp_all add: arrays_reset array_addresses_def keys_delete e)
  qed
qed


lemma tracks_reset: "tracks (reset s) = None" "track_ends (reset s) = None"
  using fully_reset_reset [of s] by (simp_all add: fully_reset_def)

lemma keys_update: "fst ` set (AList.update k v al) = insert k (fst ` set al)"
  by (induction al) auto

text \<open>
  \<^verbatim>\<open>allocate_tracks\<close>, entered with both pointers null: when it fails, the instance is reset
  and no array is left; when it succeeds, the only new arrays are the two it stored in
  \<^verbatim>\<open>tracks\<close> and \<^verbatim>\<open>track_ends\<close>.
\<close>

lemma malloc_function_arrays:
  "malloc_function s n = (p, s')
     \<Longrightarrow> arrays s' = arrays s \<and> tracks s' = tracks s \<and> track_ends s' = track_ends s"
  by (auto simp: malloc_function_def split: list.splits if_splits)

lemma allocate_tracks_arrays:
  assumes "allocate_tracks s = (r, s')" "tracks s = None" "track_ends s = None"
  shows "(r \<noteq> BLASTMIDI_OK \<longrightarrow> fully_reset s' \<and> array_addresses s' \<subseteq> array_addresses s)
       \<and> (r = BLASTMIDI_OK \<longrightarrow>
            array_addresses s' - set_option (tracks s') - set_option (track_ends s')
              \<subseteq> array_addresses s)"
proof -
  obtain p s1 where m1: "malloc_function s (sizeof_pointer * unat (track_count s)) = (p, s1)"
    by (cases "malloc_function s (sizeof_pointer * unat (track_count s))") auto
  note a1 = malloc_function_arrays [OF m1]
  show ?thesis
  proof (cases p)
    case None
    with assms m1 have s': "s' = reset (s1\<lparr>tracks := None\<rparr>)" and r: "r = BLASTMIDI_OUTOFMEMORY"
      by (auto simp: allocate_tracks_def)
    have "array_addresses s' \<subseteq> array_addresses s"
      unfolding s' array_addresses_reset using a1 by (auto simp: array_addresses_def)
    with s' r show ?thesis by (simp add: fully_reset_reset)
  next
    case (Some a)
    define s3 where "s3 = s1\<lparr>tracks := Some a,
       arrays := AList.update a (replicate (unat (track_count s1)) None) (arrays s1)\<rparr>"
    obtain q s4 where m2: "malloc_function s3 (sizeof_pointer * unat (track_count s3)) = (q, s4)"
      by (cases "malloc_function s3 (sizeof_pointer * unat (track_count s3))") auto
    note a2 = malloc_function_arrays [OF m2]
    have aa4: "array_addresses s4 = insert a (array_addresses s)" "tracks s4 = Some a"
      using a1 a2 by (simp_all add: s3_def array_addresses_def keys_update)
    show ?thesis
    proof (cases q)
      case None
      with assms m1 Some m2 have s': "s' = reset (s4\<lparr>track_ends := None\<rparr>)"
        and r: "r = BLASTMIDI_OUTOFMEMORY"
        by (auto simp: allocate_tracks_def Let_def s3_def)
      have "array_addresses s' \<subseteq> array_addresses s"
        unfolding s' array_addresses_reset using aa4 by (auto simp: array_addresses_def)
      with s' r show ?thesis by (simp add: fully_reset_reset)
    next
      case (Some b)
      with assms m1 \<open>p = Some a\<close> m2
      have s': "s' = s4\<lparr>track_ends := Some b,
                 arrays := AList.update b (replicate (unat (track_count s4)) None) (arrays s4)\<rparr>"
        and r: "r = BLASTMIDI_OK"
        by (auto simp: allocate_tracks_def Let_def s3_def)
      have "array_addresses s' = insert b (insert a (array_addresses s))"
        "tracks s' = Some a" "track_ends s' = Some b"
        using aa4 by (simp_all add: s' array_addresses_def keys_update)
      with r show ?thesis by auto
    qed
  qed
qed

text \<open>
  The loop over the tracks in \<^verbatim>\<open>blastmidi_read\<close>: the first track that fails resets the
  instance, which frees the two arrays.
\<close>

lemma blastmidi_read_loop_error:
  "blastmidi_read_loop s i = (r, s') \<Longrightarrow> r \<noteq> BLASTMIDI_OK
     \<Longrightarrow> fully_reset s'
         \<and> array_addresses s'
             = array_addresses s - set_option (tracks s) - set_option (track_ends s)"
proof (induction s i rule: blastmidi_read_loop.induct)
  case (1 s i)
  show ?case
  proof (cases "i < unat (track_count s)")
    case False
    with "1.prems" show ?thesis by (simp add: blastmidi_read_loop.simps [of s])
  next
    case True
    obtain r1 s1 where rt: "read_track s (word_of_nat i) = (r1, s1)"
      by (cases "read_track s (word_of_nat i)") auto
    note fr = array_frame_addresses [OF array_frame_read_track [OF rt]]
    show ?thesis
    proof (cases "r1 = BLASTMIDI_OK")
      case False
      with "1.prems" True rt have "s' = reset s1"
        by (auto simp: blastmidi_read_loop.simps [of s])
      with fr show ?thesis by (simp add: fully_reset_reset array_addresses_reset)
    next
      case ok: True
      with "1.prems" True rt have "blastmidi_read_loop s1 (Suc i) = (r, s')"
        by (simp add: blastmidi_read_loop.simps [of s])
      moreover have "\<not> r1 \<noteq> BLASTMIDI_OK" using ok by simp
      ultimately have "fully_reset s'
         \<and> array_addresses s'
             = array_addresses s1 - set_option (tracks s1) - set_option (track_ends s1)"
        using "1.IH" [OF True rt [symmetric]] "1.prems" by blast
      with fr show ?thesis by simp
    qed
  qed
qed

lemma blastmidi_read_unfold:
  assumes "data_callback s \<noteq> None" and "read_header (reset s) = (r2, s2)"
  shows "blastmidi_read s =
     (if r2 \<noteq> BLASTMIDI_OK then (r2, reset s2) else
      case allocate_tracks s2 of (r3, s3) \<Rightarrow>
      if r3 \<noteq> BLASTMIDI_OK then (r3, reset s3) else
      case blastmidi_read_loop s3 0 of (r4, s4) \<Rightarrow>
      if r4 \<noteq> BLASTMIDI_OK then (r4, s4) else (BLASTMIDI_OK, s4\<lparr>valid := 1\<rparr>))"
  using assms by (cases "data_callback s") (simp_all add: blastmidi_read_def Let_def)

text \<open>
  Claim C2. Whenever \<^verbatim>\<open>blastmidi_read\<close>, called with a data callback in place, returns an
  error, and the call did not read a freed event, the document is fully reset after the call:
  \<^verbatim>\<open>tracks\<close> and \<^verbatim>\<open>track_ends\<close> are null, \<^verbatim>\<open>track_count\<close> is 0, the format and
  time-division fields are 0 and \<^verbatim>\<open>valid\<close> is 0. The arrays are released: every pointer array
  that is still allocated after the call was allocated before the call and was neither
  \<^verbatim>\<open>tracks\<close> nor \<^verbatim>\<open>track_ends\<close> of the instance, so the two arrays the instance held
  on entry, and the two that \<^verbatim>\<open>allocate_tracks\<close> made during the call, have been passed to
  \<^verbatim>\<open>free_function\<close>. The error can come from the header, from \<^verbatim>\<open>allocate_tracks\<close> or
  from any track.
\<close>

theorem blastmidi_read_all_or_nothing:
  assumes "data_callback s \<noteq> None"
    and "fst (blastmidi_read s) \<noteq> BLASTMIDI_OK"
    and "\<not> undefined_behaviour (snd (blastmidi_read s))"
  shows "fully_reset (snd (blastmidi_read s))
       \<and> array_addresses (snd (blastmidi_read s))
           \<subseteq> array_addresses s - set_option (tracks s) - set_option (track_ends s)"
proof -
  let ?A = "array_addresses s - set_option (tracks s) - set_option (track_ends s)"
  have aa1: "array_addresses (reset s) = ?A"
    and t1: "tracks (reset s) = None" "track_ends (reset s) = None"
    by (simp_all add: array_addresses_reset tracks_reset)
  obtain r2 s2 where rh: "read_header (reset s) = (r2, s2)"
    by (cases "read_header (reset s)") auto
  note u = blastmidi_read_unfold [OF assms(1) rh]
  from array_frame_addresses [OF array_frame_read_header [OF rh]] aa1 t1
  have aa2: "array_addresses s2 = ?A" and t2: "tracks s2 = None" "track_ends s2 = None"
    by simp_all
  show ?thesis
  proof (cases "r2 = BLASTMIDI_OK")
    case False
    with u have "snd (blastmidi_read s) = reset s2" by simp
    with aa2 t2 show ?thesis by (simp add: fully_reset_reset array_addresses_reset)
  next
    case h_ok: True
    obtain r3 s3 where at: "allocate_tracks s2 = (r3, s3)" by (cases "allocate_tracks s2") auto
    note al = allocate_tracks_arrays [OF at t2]
    show ?thesis
    proof (cases "r3 = BLASTMIDI_OK")
      case False
      with u h_ok at have res: "snd (blastmidi_read s) = reset s3" by simp
      from al False have f3: "fully_reset s3" and sub: "array_addresses s3 \<subseteq> array_addresses s2"
        by simp_all
      from f3 have "tracks s3 = None" "track_ends s3 = None"
        by (simp_all add: fully_reset_def)
      with sub aa2 show ?thesis
        unfolding res by (simp add: fully_reset_reset array_addresses_reset)
    next
      case a_ok: True
      obtain r4 s4 where lp: "blastmidi_read_loop s3 0 = (r4, s4)"
        by (cases "blastmidi_read_loop s3 0") auto
      from u h_ok at a_ok lp have u4: "blastmidi_read s =
          (if r4 \<noteq> BLASTMIDI_OK then (r4, s4) else (BLASTMIDI_OK, s4\<lparr>valid := 1\<rparr>))"
        by simp
      with assms(2) have r4: "r4 \<noteq> BLASTMIDI_OK" by (cases "r4 = BLASTMIDI_OK") simp_all
      with u4 have res: "snd (blastmidi_read s) = s4" by simp
      from al a_ok have sub:
        "array_addresses s3 - set_option (tracks s3) - set_option (track_ends s3)
           \<subseteq> array_addresses s2"
        by simp
      from blastmidi_read_loop_error [OF lp r4] sub aa2
      show ?thesis unfolding res by simp
    qed
  qed
qed

text \<open>
  A one-track file whose track chunk announces 8 bytes, holds a note-on and a note-off and
  ends without an end-of-track event: the read fails with \<^verbatim>\<open>BLASTMIDI_UNEXPECTEDEND\<close>
  after two events were attached to track 0.
\<close>

definition truncated_file :: "u8 list" where
  "truncated_file =
     MThd @ [0, 0, 0, 6, 0, 0, 0, 1, 0, 96]
     @ MTrk @ [0, 0, 0, 8, 0x00, 0x90, 60, 100, 0x60, 0x80, 60, 0]"

theorem blastmidi_read_all_or_nothing_witness:
  "data_callback (instance_on truncated_file) \<noteq> None
   \<and> fst (blastmidi_read (instance_on truncated_file)) = BLASTMIDI_UNEXPECTEDEND
   \<and> \<not> undefined_behaviour (snd (blastmidi_read (instance_on truncated_file)))
   \<and> events (snd (blastmidi_read (instance_on truncated_file))) = []
   \<and> fully_reset (snd (blastmidi_read (instance_on truncated_file)))
   \<and> array_addresses (snd (blastmidi_read (instance_on truncated_file))) = {}"
proof -
  have "data_callback (instance_on truncated_file) \<noteq> None
        \<and> arrays (instance_on truncated_file) = []
        \<and> tracks (instance_on truncated_file) = None
        \<and> track_ends (instance_on truncated_file) = None"
    by code_simp
  moreover have "case blastmidi_read (instance_on truncated_file) of
           (r, s) \<Rightarrow> r = BLASTMIDI_UNEXPECTEDEND \<and> \<not> undefined_behaviour s \<and> events s = []"
    by code_simp
  ultimately show ?thesis
    using blastmidi_read_all_or_nothing [of "instance_on truncated_file"]
    by (simp add: array_addresses_def case_prod_beta)
qed

text \<open>
  The hypothesis on freed events is needed. After \<^verbatim>\<open>blastmidi_whipe_track\<close>, slot 0 of
  \<^verbatim>\<open>tracks\<close> still holds the address of the freed event, and the \<^verbatim>\<open>reset\<close> at the start of
  \<^verbatim>\<open>blastmidi_read\<close> walks the track from that address (\<^verbatim>\<open>current->next\<close> of a freed
  event).
\<close>

lemma read_after_whipe_track_is_undefined:
  "(case blastmidi_whipe_track (Some first_attached) 0 of
      None \<Rightarrow> False
    | Some s \<Rightarrow> \<not> undefined_behaviour s \<and> undefined_behaviour (snd (blastmidi_read s)))"
  by code_simp

end
